theory Spec2Isabelle
  imports Main
begin

section \<open>Python string primitives used by the script transformer\<close>

text \<open>
  Strings are lists of characters, one \<^typ>\<open>char\<close> per code point; the script formats are
  ASCII, so code points below 256 are all that the transformer distinguishes.
\<close>

definition NL :: char where
  "NL = CHR 0x0A"

text \<open>\<^verbatim>\<open>sep.join(parts)\<close>\<close>

fun join :: "string \<Rightarrow> string list \<Rightarrow> string" where
  "join sep [] = []"
| "join sep [x] = x"
| "join sep (x # y # ys) = x @ sep @ join sep (y # ys)"

text \<open>\<^verbatim>\<open>string.split(c)\<close> for a separator of one character: never empty, keeps empty pieces.\<close>

fun cons_hd :: "char \<Rightarrow> string list \<Rightarrow> string list" where
  "cons_hd x [] = [[x]]"
| "cons_hd x (w # ws) = (x # w) # ws"

fun split_char :: "char \<Rightarrow> string \<Rightarrow> string list" where
  "split_char c [] = [[]]"
| "split_char c (x # xs) =
     (if x = c then [] # split_char c xs else cons_hd x (split_char c xs))"

text \<open>\<^verbatim>\<open>line.split('//')[0]\<close>: the text before the first occurrence of two slashes.\<close>

fun line_without_comments :: "string \<Rightarrow> string" where
  "line_without_comments (x # y # zs) =
     (if x = CHR ''/'' \<and> y = CHR ''/'' then [] else x # line_without_comments (y # zs))"
| "line_without_comments s = s"

text \<open>
  \<^verbatim>\<open>str.isspace\<close> on one character, for code points below 256: tab, line feed, vertical
  tab, form feed, carriage return, the four separators 0x1C..0x1F, space, NEL and the
  no-break space.
\<close>

definition py_isspace :: "char \<Rightarrow> bool" where
  "py_isspace c \<longleftrightarrow>
     of_char c \<in> {9, 10, 11, 12, 13, 28, 29, 30, 31, 32, 133, 160 :: nat}"

text \<open>\<^verbatim>\<open>string.strip()\<close>\<close>

definition strip :: "string \<Rightarrow> string" where
  "strip s = rev (dropWhile py_isspace (rev (dropWhile py_isspace s)))"

text \<open>\<^verbatim>\<open>str(n)\<close> for an integer.\<close>

definition digit_char :: "nat \<Rightarrow> char" where
  "digit_char d = char_of (48 + d)"

fun str_nat :: "nat \<Rightarrow> string" where
  "str_nat n = (if n < 10 then [digit_char n] else str_nat (n div 10) @ [digit_char (n mod 10)])"

declare str_nat.simps [simp del]

definition str_int :: "int \<Rightarrow> string" where
  "str_int i = (if i < 0 then CHR ''-'' # str_nat (nat (- i)) else str_nat (nat i))"

text \<open>
  \<^verbatim>\<open>int(string)\<close> in base 10. \<open>None\<close> stands for \<^verbatim>\<open>ValueError\<close>. The conversion
  drops surrounding whitespace, but fewer characters count as whitespace here than for
  \<^verbatim>\<open>strip\<close>: the four separators 0x1C..0x1F are not skipped, so \<^verbatim>\<open>int('\x1f1')\<close> raises.
  One sign is allowed, the digits may be grouped by single underscores, and a text of more
  than 4300 digits is refused (the interpreter's default limit for this conversion).
\<close>

definition int_isspace :: "char \<Rightarrow> bool" where
  "int_isspace c \<longleftrightarrow> of_char c \<in> {9, 10, 11, 12, 13, 32, 133, 160 :: nat}"

definition is_digit :: "char \<Rightarrow> bool" where
  "is_digit c \<longleftrightarrow> 48 \<le> (of_char c :: nat) \<and> (of_char c :: nat) \<le> 57"

fun digits_ok :: "string \<Rightarrow> bool" where
  "digits_ok [] = False"
| "digits_ok [c] = is_digit c"
| "digits_ok (c # d # cs) =
     (if is_digit c then digits_ok (d # cs)
      else c = CHR ''_'' \<and> is_digit d \<and> digits_ok (d # cs))"

definition digits_value :: "string \<Rightarrow> nat" where
  "digits_value s = foldl (\<lambda>acc c. 10 * acc + (of_char c - 48)) 0 (filter is_digit s)"

definition py_int :: "string \<Rightarrow> int option" where
  "py_int s =
     (let t = rev (dropWhile int_isspace (rev (dropWhile int_isspace s)));
          negative = (t \<noteq> [] \<and> hd t = CHR ''-'');
          body = (if t \<noteq> [] \<and> (hd t = CHR ''-'' \<or> hd t = CHR ''+'') then tl t else t)
      in if body \<noteq> [] \<and> is_digit (hd body) \<and> digits_ok body \<and>
            length (filter is_digit body) \<le> 4300
         then Some (if negative then - int (digits_value body) else int (digits_value body))
         else None)"

section \<open>Static tables\<close>

definition NONE_STRING :: string where
  "NONE_STRING = ''-/-''"

text \<open>The last entry is the code point U+2731, written here as its three UTF-8 bytes.\<close>

definition ELEMENT_CLASSES :: "string list" where
  "ELEMENT_CLASSES =
     [NONE_STRING, ''Nature'', ''Air'', ''Water'', ''Light'', ''Energy'',
      ''Psi'', ''Stone'', ''Ice'', ''Fire'', ''Dark'', ''Chaos'', ''Metal'',
      [CHR 0xE2, CHR 0x9C, CHR 0xB1]]"

text \<open>
  A dictionary literal is an association list in the order of the source, read with
  \<^const>\<open>map_of\<close>. The keys of each table are distinct, so no entry shadows another.
\<close>

definition SCRIPT_COMMANDS :: "(string \<times> string) list" where
  "SCRIPT_COMMANDS =
    [(''!'', ''say''),
     (''C'', ''setModel''),
     ([CHR 0x22], ''choice''),
     (''#'', ''waitForUser''),
     (''$'', ''label''),
     (''&'', ''setCamera''),
     (''%'', ''exit''),
     ([CHR 0x27], ''wizform''),
     (''('', ''spell''),
     (''8'', ''else''),
     ('')'', ''changeWaypoint''),
     (''*'', ''fight''),
     (''+'', ''lookAtPlayer''),
     ('','', ''changeDatabase''),
     (''-'', ''removeNpc''),
     (''.'', ''catchWizform''),
     (''0'', ''killPlayer''),
     (''5'', ''tradingCurrency''),
     (''2'', ''tradingItem''),
     (''3'', ''tradingSpell''),
     (''4'', ''tradingWizform''),
     (''1'', ''givePlayerCards''),
     (''B'', ''setupGambling''),
     (''6'', ''ifPlayerHasCards''),
     (''@'', ''ifPlayerHasSpecials''),
     (''='', ''ifTriggerIsActive''),
     (''9'', ''removePlayerCards''),
     ('':'', ''moveSystem''),
     (''?'', ''movementSpeed''),
     ('';'', ''modifyWizform''),
     (''<'', ''lockUserInput''),
     (''>'', ''modifyTrigger''),
     (''A'', ''playAnimation''),
     (''D'', ''ifIsWizform''),
     (''E'', ''startPrelude''),
     (''F'', ''npcWizFormEscapes''),
     (''G'', ''dance''),
     (''H'', ''setGlobal''),
     (''I'', ''beginIf_global''),
     (''J'', ''talk''),
     (''K'', ''goto''),
     (''L'', ''gotoRandomLabel''),
     (''M'', ''ask''),
     (''N'', ''chafferWizForms''),
     (''O'', ''setNpcType''),
     (''P'', ''deployNpcAtTrigger''),
     (''Q'', ''delay''),
     (''R'', ''gotoLabelByRandom''),
     (''S'', ''ifCloseToWaypoint''),
     (''T'', ''removeWizForms''),
     (''U'', ''ifNpcModifierHasValue''),
     (''V'', ''setNpcModifier''),
     (''W'', ''defaultWizForm''),
     (''X'', ''idle''),
     (''Y'', ''ifPlayerIsClose''),
     (''Z'', ''ifNumberOfNpcsIs''),
     (''['', ''startEffect''),
     ([CHR 0x5C], ''setTalkLabels''),
     ('']'', ''setCollision''),
     (''^'', ''tradeWizform''),
     (''_'', ''createDynamicItems''),
     ([CHR 0x60], ''playVideo''),
     (''a'', ''removeNpcAtTrigger''),
     (''b'', ''revive''),
     (''c'', ''lookAtTrigger''),
     (''d'', ''ifTriggerIsEnabled''),
     (''e'', ''playSound''),
     (''f'', ''playInArena''),
     (''g'', ''startActorEffect''),
     (''h'', ''endActorEffect''),
     (''i'', ''createSceneObjects''),
     (''j'', ''evolveWizForm''),
     (''k'', ''removeBehaviour''),
     (''l'', ''unlockDoor''),
     (''m'', ''endGame''),
     (''n'', ''defaultDeck''),
     (''o'', ''subGame''),
     (''p'', ''modifyEffect''),
     (''q'', ''playPlayerAnimation''),
     (''s'', ''playAmyVoice''),
     (''r'', ''createDynamicModel''),
     (''t'', ''deploySound''),
     (''u'', ''givePlayerPresent''),
     (''7'', ''endIf'')]"

text \<open>
  \<^verbatim>\<open>for key, value in SCRIPT_COMMANDS.items(): REVERSE_SCRIPT_COMMANDS[value] = key\<close>:
  a later assignment to the same mnemonic would overwrite an earlier one, hence the
  reversal before \<^const>\<open>map_of\<close>, which takes the first match.
\<close>

definition REVERSE_SCRIPT_COMMANDS :: "(string \<times> string) list" where
  "REVERSE_SCRIPT_COMMANDS = rev (map (\<lambda>(key, val). (val, key)) SCRIPT_COMMANDS)"

text \<open>All commands not in this dictionary take zero arguments.\<close>

definition script_command_parameters :: "(string \<times> string list) list" where
  "script_command_parameters =
    [(''label'', [''id'']),
     (''goto'', [''labelId'']),
     (''gotoRandomLabel'', [''int'', ''int'']),
     (''say'', [''dialogUid'', ''silent'']),
     (''setModel'', [''id'']),
     (''choice'', [''ladelId'', ''uid'']),
     (''setCamera'', [''code'']),
     (''wizform'', [''deckSlot'', ''fairyId'', ''level'']),
     (''spell'', [''deckSlot'', ''spellSlot'', ''spellId'']),
     (''changeWaypoint'', [''startId'', ''endId'']),
     (''fight'', [''sceneId'', ''multipleEnemiesBool'']),
     (''lookAtPlayer'', [''seconds/10'', ''mode'']),
     (''changeDatabase'', [''uid'']),
     (''tradingCurrency'', [''uid'']),
     (''tradingItem'', [''price'', ''uid'']),
     (''tradingSpell'', [''price'', ''uid'']),
     (''tradingWizform'', [''price'', ''uid'']),
     (''givePlayerCards'', [''amount'', ''cardType'', ''id'']),
     (''setupGambling'', [''amount'', ''cardType'', ''id'']),
     (''ifPlayerHasCards'', [''amount'', ''cardType'', ''id'']),
     (''ifPlayerHasSpecials'', [''condition'', ''argument'']),
     (''ifTriggerIsActive'', [''id'']),
     (''ifIsWizform'', [''fairyId'']),
     (''removePlayerCards'', [''amount'', ''cardType'', ''id'']),
     (''moveSystem'', [''waypointMode'', ''waypointCategory'']),
     (''movementSpeed'', [''int'']),
     (''modifyWizform'', [''subcommand'', ''argument'']),
     (''lockUserInput'', [''bool'']),
     (''modifyTrigger'', [''enable'', ''id'', ''triggerId'']),
     (''playAnimation'', [''animationType'', ''UNUSED'']),
     (''talk'', [''uid'']),
     (''chafferWizForms'', [''uid1'', ''uid2'', ''uid3'']),
     (''setNpcType'', [''int'']),
     (''deployNpcAtTrigger'', [''id'', ''NpcOrPlayerBool'']),
     (''delay'', [''duration'']),
     (''ifCloseToWaypoint'', [''waypointId'']),
     (''ifNpcModifierHasValue'', [''id'']),
     (''setNpcModifier'', [''scene'', ''triggerId'', ''value'']),
     (''defaultWizForm'', [''fairyId'', ''groupOrSlot'', ''level'']),
     (''ifPlayerIsClose'', [''distance'']),
     (''ifNumberOfNpcsIs'', [''amount'', ''uid'']),
     (''startEffect'', [''effectType'', ''triggerId'']),
     (''setTalkLabels'', [''yes'', ''no'', ''talkMode'']),
     (''setCollision'', [''isSolidBool'']),
     (''tradeWizform'', [''id'']),
     (''createDynamicItems'', [''itemId'', ''count'', ''triggerId'']),
     (''playVideo'', [''videoId'']),
     (''removeNpcAtTrigger'', [''triggerId'']),
     (''lookAtTrigger'', [''duration'', ''triggerId'']),
     (''ifTriggerIsEnabled'', [''triggerId'']),
     (''playSound'', [''soundId'']),
     (''playInArena'', [''arg'', ''UNUSED'']),
     (''createSceneObjects'', [''objectType'']),
     (''removeBehaviour'', [''id'']),
     (''unlockDoor'', [''id'', ''isMetalDoorBool'']),
     (''defaultDeck'', [''groupId'', ''level'', ''UNUSED'']),
     (''subGame'', [''gameType'', ''size'', ''exitLabel'']),
     (''playPlayerAnimation'', [''animationType'', ''UNUSED'']),
     (''playAmyVoice'', [''string'']),
     (''createDynamicModel'', [''UNUSED'', ''UNUSED'', ''UNUSED'']),
     (''deploySound'', [''id'', ''triggerId'']),
     (''givePlayerPresent'', [''UNUSED'']),
     (''startActorEffect'', [''id''])]"

definition AVAILABLE_ANIMATIONS :: "string list" where
  "AVAILABLE_ANIMATIONS =
    [''Idle0'', ''Jump'', ''Run'', ''RunForwardLeft'', ''RunForwardRight'', ''Back'',
     ''Dance'', ''Fall'', ''Rotate'', ''Right'', ''Left'', ''Idle1'', ''Idle2'', ''Talk0'',
     ''Talk1'', ''Talk2'', ''Talk3'', ''Walk0'', ''Walk1'', ''Walk2'', ''SpecialIdle0'',
     ''SpecialIdle1'', ''SpecialIdle2'', ''FlyForward'', ''FlyBack'', ''FlyLeft'',
     ''FlyRight'', ''Loadup'', ''Hit'', ''Joy'', ''ThudGround'', ''UseFairyPipe'',
     ''UseSeaShell'', ''Smith'', ''Astonished'', ''Surprise0'', ''Surprise1'', ''Stop'',
     ''ThudGround2'', ''PixieFlounder'', ''JumpHigh'']"

section \<open>The compiler\<close>

text \<open>\<open>splitByWhitespace\<close>: \<^verbatim>\<open>list(filter(None, string.split(' ')))\<close>\<close>

definition splitByWhitespace :: "string \<Rightarrow> string list" where
  "splitByWhitespace s = filter (\<lambda>w. w \<noteq> []) (split_char CHR '' '' s)"

definition makeError :: "nat \<Rightarrow> string \<Rightarrow> string" where
  "makeError line_counter message = ''Line '' @ str_nat (line_counter + 1) @ '': '' @ message"

text \<open>
  The body of the loop of \<open>compile\<close> on the line at position \<open>index\<close>, as a function on the
  two accumulators \<open>(output, errors)\<close>. The three \<^verbatim>\<open>continue\<close> branches return without
  reaching the final \<^verbatim>\<open>output += '.'.join(tokens[1:])\<close>.
\<close>

definition emit_command :: "nat \<Rightarrow> string list \<Rightarrow> string \<Rightarrow> string \<Rightarrow> string" where
  "emit_command index tokens opcode output =
     (let output1 = (if index > 0 then output @ [NL] else output);
          output2 = output1 @ opcode;
          output3 = (if length tokens > 1 then output2 @ ''.'' else output2)
      in output3 @ join ''.'' (drop 1 tokens))"

definition compile_line :: "nat \<Rightarrow> string \<Rightarrow> string \<times> string list \<Rightarrow> string \<times> string list" where
  "compile_line index line st =
     (case st of (output, errors) \<Rightarrow>
        let tokens = splitByWhitespace (line_without_comments line) in
        if length tokens = 0 then (output @ join ''.'' (drop 1 tokens), errors)
        else
          (case map_of REVERSE_SCRIPT_COMMANDS (tokens ! 0) of
             None \<Rightarrow> (output, errors @ [makeError index (''Unknown command: '' @ tokens ! 0)])
           | Some opcode \<Rightarrow>
               let command = tokens ! 0 in
               (case map_of script_command_parameters command of
                  Some parameters \<Rightarrow>
                    if length tokens - 1 \<noteq> length parameters
                    then (output, errors @ [makeError index
                            (''Command '' @ command @ '' takes exactly '' @
                             str_nat (length parameters) @ '' arguments: '' @
                             join '', '' parameters)])
                    else (emit_command index tokens opcode output, errors)
                | None \<Rightarrow>
                    if length tokens \<noteq> 1
                    then (output, errors @ [makeError index
                            (''Command takes no arguments: '' @ command)])
                    else (emit_command index tokens opcode output, errors))))"

fun compile_loop :: "nat \<Rightarrow> string list \<Rightarrow> string \<times> string list \<Rightarrow> string \<times> string list" where
  "compile_loop index [] st = st"
| "compile_loop index (line # rest) st = compile_loop (Suc index) rest (compile_line index line st)"

text \<open>
  \<open>compile\<close> returns \<^verbatim>\<open>[True, packed]\<close> or \<^verbatim>\<open>[False, errors]\<close>: \<open>Inr packed\<close> and
  \<open>Inl errors\<close> here.
\<close>

definition compile :: "string \<Rightarrow> string list + string" where
  "compile script =
     (case compile_loop 0 (split_char NL script) ([], []) of
        (output, errors) \<Rightarrow>
          if length errors = 0 then Inr (output @ [NL]) else Inl errors)"

section \<open>Database lookups\<close>

text \<open>
  The database connection is used through two calls only: a query with one parameter
  whose first row is fetched (\<open>fetchString\<close>; the model keeps column 0 of that row, which
  is all that \<open>fetchStringOrNull\<close> reads) and a query without parameters whose rows are all
  fetched, each a pair of a name id and a card id.
\<close>

record sql_connection =
  fetchone :: "string \<Rightarrow> string \<Rightarrow> string option"
  fetchall :: "string \<Rightarrow> (string \<times> int) list"

definition fetchStringOrNull :: "sql_connection \<Rightarrow> string \<Rightarrow> string \<Rightarrow> string" where
  "fetchStringOrNull sql_connection query_string param =
     (case fetchone sql_connection query_string param of
        None \<Rightarrow> ''NULL''
      | Some col0 \<Rightarrow> col0)"

definition resolveLabel :: "sql_connection \<Rightarrow> string \<Rightarrow> string" where
  "resolveLabel sql_connection uid =
     fetchStringOrNull sql_connection ''select col_0_String from _fb0x02 where UID =?'' uid"

definition resolveDialog :: "sql_connection \<Rightarrow> string \<Rightarrow> string" where
  "resolveDialog sql_connection uid =
     fetchStringOrNull sql_connection ''select col_0_String from _fb0x06 where UID =?'' uid"

text \<open>\<open>getCardEntityId\<close>: \<^verbatim>\<open>(card_id >> 16) & 0xffff\<close>\<close>

definition getCardEntityId :: "int \<Rightarrow> int" where
  "getCardEntityId card_id = take_bit 16 (drop_bit 16 card_id)"

fun resolveCardIdName_loop :: "sql_connection \<Rightarrow> (string \<times> int) list \<Rightarrow> string \<Rightarrow> string" where
  "resolveCardIdName_loop sql_connection [] entity_id = ''NULL''"
| "resolveCardIdName_loop sql_connection ((name_id, card_id) # card_values) entity_id =
     (if str_int (getCardEntityId card_id) = entity_id
      then resolveLabel sql_connection (hd (split_char CHR ''|'' name_id))
      else resolveCardIdName_loop sql_connection card_values entity_id)"

definition resolveCardIdName :: "sql_connection \<Rightarrow> string \<Rightarrow> string \<Rightarrow> string" where
  "resolveCardIdName sql_connection query_string entity_id =
     resolveCardIdName_loop sql_connection (fetchall sql_connection query_string) entity_id"

definition resolveFairyName :: "sql_connection \<Rightarrow> string \<Rightarrow> string" where
  "resolveFairyName sql_connection fairy_id =
     resolveCardIdName sql_connection
       ''select col_1_ForeignKey, col_3_Integer from _fb0x01'' fairy_id"

definition resolveCardDescription :: "sql_connection \<Rightarrow> string \<Rightarrow> string \<Rightarrow> string" where
  "resolveCardDescription sql_connection card_type card_id =
     (if card_type = ''0'' then
        ''Item: '' @ resolveCardIdName sql_connection
          ''select col_0_ForeignKey, col_1_Integer from _fb0x04'' card_id
      else if card_type = ''1'' then
        ''Spell: '' @ resolveCardIdName sql_connection
          ''select col_0_ForeignKey, col_2_Integer from _fb0x03'' card_id
      else if card_type = ''2'' then ''Fairy: '' @ resolveFairyName sql_connection card_id
      else if card_type = ''3'' then ''Blank''
      else ''NULL'')"

section \<open>The annotation of decompiled lines\<close>

datatype error = IndexError | KeyError

text \<open>
  \<open>with_item xs i f\<close> continues with \<^verbatim>\<open>xs[i]\<close>, or raises \<open>IndexError\<close> when the list has
  no such position (only the positions 0, 1 and 2 are ever read).
\<close>

definition with_item :: "string list \<Rightarrow> nat \<Rightarrow> (string \<Rightarrow> error + 'a) \<Rightarrow> error + 'a" where
  "with_item xs i f = (if i < length xs then f (xs ! i) else Inl IndexError)"

text \<open>The \<^verbatim>\<open>except ValueError: pass\<close> falls through to the final \<^verbatim>\<open>return 'NULL'\<close>.\<close>

definition indexListByMaybeInt :: "string list \<Rightarrow> string \<Rightarrow> string" where
  "indexListByMaybeInt string_list maybe_integer =
     (case py_int maybe_integer of
        Some index \<Rightarrow>
          if index \<ge> 0 \<and> index < int (length string_list)
          then string_list ! nat index
          else ''NULL''
      | None \<Rightarrow> ''NULL'')"

definition makeDecompiledSpecialsComment :: "string list \<Rightarrow> error + string" where
  "makeDecompiledSpecialsComment arguments =
     with_item arguments 0 (\<lambda>a0.
       if a0 = ''1'' then
         with_item arguments 1 (\<lambda>a1.
           Inr (''; Player has'' @ (if a1 = ''0'' then '' no'' else []) @ '' Fairy in Deck''))
       else if a0 = ''2'' then Inr ''; Player has at least n fairies''
       else if a0 = ''3'' then
         with_item arguments 1 (\<lambda>a1.
           Inr (''; Player can show '' @ indexListByMaybeInt ELEMENT_CLASSES a1 @ '' Fairy''))
       else Inr [])"

definition makeActorEffectComment :: "string \<Rightarrow> string" where
  "makeActorEffectComment id_argument =
     (if id_argument = ''0'' then ''; Rain clouds with lightning''
      else if id_argument = ''1'' then ''; Orange sphere''
      else [])"

definition subcommand_descriptions :: "(string \<times> string) list" where
  "subcommand_descriptions =
    [(''0'', ''; Heal''),
     (''1'', ''; Add exp''),
     (''2'', ''; Clear status effects''),
     (''8'', ''; Add exp to almost next level''),
     (''16'', ''; Revive fairy''),
     (''17'', ''; Fill up mana''),
     (''18'', ''; Rename fairy'')]"

definition modes :: "(string \<times> string) list" where
  "modes =
    [(''-1'', ''Idle: Don'' @ [CHR 0x27] @ ''t look at player''),
     (''1'', ''Rotate to player''),
     (''2'', ''Rotate to player smoothly''),
     (''3'', ''Rotate to player like a billboard'')]"

definition makeDecompiledParameterComment ::
    "string \<Rightarrow> string list \<Rightarrow> sql_connection \<Rightarrow> error + string" where
  "makeDecompiledParameterComment command arguments sql_connection =
     (case map_of script_command_parameters command of
        None \<Rightarrow> Inl KeyError
      | Some parameter_names \<Rightarrow>
          let result = '' // '' @ join '', '' parameter_names in
          if command = ''wizform'' then
            with_item arguments 1 (\<lambda>a1.
              Inr (result @ ''; '' @ resolveFairyName sql_connection a1))
          else if command = ''defaultWizForm'' \<or> command = ''ifIsWizform'' then
            with_item arguments 0 (\<lambda>a0.
              Inr (result @ ''; '' @ resolveFairyName sql_connection a0))
          else if command = ''say'' \<or> command = ''talk'' then
            with_item arguments 0 (\<lambda>a0.
              Inr (result @ ''; '' @ resolveDialog sql_connection a0))
          else if command = ''choice'' then
            with_item arguments 1 (\<lambda>a1.
              Inr (result @ ''; '' @ resolveDialog sql_connection a1))
          else if command = ''givePlayerCards'' \<or> command = ''setupGambling'' \<or>
                  command = ''ifPlayerHasCards'' \<or> command = ''removePlayerCards'' then
            with_item arguments 1 (\<lambda>a1.
              with_item arguments 2 (\<lambda>a2.
                Inr (result @ ''; '' @ resolveCardDescription sql_connection a1 a2)))
          else if command = ''modifyWizform'' then
            with_item arguments 0 (\<lambda>a0.
              if a0 = ''7'' then
                with_item arguments 1 (\<lambda>a1.
                  Inr (result @ ''; Evolve to '' @ resolveFairyName sql_connection a1))
              else
                (case map_of subcommand_descriptions a0 of
                   Some description \<Rightarrow> Inr (result @ ''; '' @ description)
                 | None \<Rightarrow> Inr result))
          else if command = ''ifPlayerHasSpecials'' then
            (case makeDecompiledSpecialsComment arguments of
               Inl e \<Rightarrow> Inl e
             | Inr specials \<Rightarrow> Inr (result @ specials))
          else if command = ''lookAtPlayer'' then
            with_item arguments 1 (\<lambda>a1.
              case map_of modes a1 of
                Some mode \<Rightarrow> Inr (result @ ''; '' @ mode)
              | None \<Rightarrow> Inr result)
          else if command = ''playAnimation'' \<or> command = ''playPlayerAnimation'' then
            with_item arguments 0 (\<lambda>a0.
              Inr (result @ ''; Animation: '' @ indexListByMaybeInt AVAILABLE_ANIMATIONS a0))
          else if command = ''startActorEffect'' then
            with_item arguments 0 (\<lambda>a0. Inr (result @ makeActorEffectComment a0))
          else Inr result)"

section \<open>The decompiler\<close>

text \<open>
  The body of the loop of \<open>decompile\<close>, on the accumulators \<open>(result, indentation)\<close>. An
  exception raised by the annotation leaves the loop and the function.
\<close>

definition decompile_line ::
    "sql_connection \<Rightarrow> string \<Rightarrow> string \<times> int \<Rightarrow> error + string \<times> int" where
  "decompile_line sql_connection line st =
     (case st of (result, indentation) \<Rightarrow>
        let tokens = split_char CHR ''.'' (strip line) in
        (case map_of SCRIPT_COMMANDS (tokens ! 0) of
           Some command \<Rightarrow>
             let indentation1 = (if command = ''endIf'' then max (indentation - 4) 0
                                 else indentation);
                 result1 = (if command \<noteq> ''else''
                            then result @ replicate (nat indentation1) CHR '' ''
                            else result);
                 result2 = result1 @ command;
                 result3 = (if length tokens > 1
                            then result2 @ '' '' @ join '' '' (drop 1 tokens)
                            else result2);
                 indentation2 = (if take 2 command = ''if'' then indentation1 + 4
                                 else indentation1)
             in if map_of script_command_parameters command \<noteq> None then
                  (case makeDecompiledParameterComment command (drop 1 tokens) sql_connection of
                     Inl e \<Rightarrow> Inl e
                   | Inr comment \<Rightarrow> Inr (result3 @ comment @ [NL], indentation2))
                else Inr (result3 @ [NL], indentation2)
         | None \<Rightarrow> Inr (result @ line @ [NL], indentation)))"

fun decompile_loop ::
    "sql_connection \<Rightarrow> string list \<Rightarrow> string \<times> int \<Rightarrow> error + string \<times> int" where
  "decompile_loop sql_connection [] st = Inr st"
| "decompile_loop sql_connection (line # rest) st =
     (case decompile_line sql_connection line st of
        Inl e \<Rightarrow> Inl e
      | Inr st' \<Rightarrow> decompile_loop sql_connection rest st')"

definition decompile :: "sql_connection \<Rightarrow> string \<Rightarrow> error + string" where
  "decompile sql_connection script =
     (case decompile_loop sql_connection (split_char NL script) ([], 0) of
        Inl e \<Rightarrow> Inl e
      | Inr (result, indentation) \<Rightarrow> Inr result)"

section \<open>Notions used in the statements\<close>

text \<open>A small database for the concrete instances: one stored string and one fairy card.\<close>

definition demo_connection :: sql_connection where
  "demo_connection =
     \<lparr>fetchone = (\<lambda>query uid. if uid = ''U1'' then Some ''Hello'' else None),
      fetchall = (\<lambda>query. [(''U1|x'', 0x30000)])\<rparr>"

text \<open>
  An argument is a bad index into a table when it is not the text of an integer, or the
  integer is negative or at least the length of the table.
\<close>

definition bad_index :: "string list \<Rightarrow> string \<Rightarrow> bool" where
  "bad_index string_list a \<longleftrightarrow>
     (case py_int a of None \<Rightarrow> True | Some i \<Rightarrow> i < 0 \<or> int (length string_list) \<le> i)"

text \<open>
  The message the specification gives for one line, following its steps 3 to 5: none for
  a line without tokens, the unknown-command message when the first token is no mnemonic,
  and one of the two arity messages when the number of remaining tokens is wrong.
\<close>

definition line_message :: "string \<Rightarrow> string option" where
  "line_message line =
     (case splitByWhitespace (line_without_comments line) of
        [] \<Rightarrow> None
      | command # args \<Rightarrow>
          (case map_of REVERSE_SCRIPT_COMMANDS command of
             None \<Rightarrow> Some (''Unknown command: '' @ command)
           | Some opcode \<Rightarrow>
               (case map_of script_command_parameters command of
                  Some parameters \<Rightarrow>
                    if length args = length parameters then None
                    else Some (''Command '' @ command @ '' takes exactly '' @
                               str_nat (length parameters) @ '' arguments: '' @
                               join '', '' parameters)
                | None \<Rightarrow>
                    if args = [] then None
                    else Some (''Command takes no arguments: '' @ command))))"

text \<open>
  The batch of errors the specification expects for the lines numbered from \<open>n\<close> on: one
  entry per line that has a message, in the order of the lines, each with its line number.
\<close>

fun expected_errors :: "nat \<Rightarrow> string list \<Rightarrow> string list" where
  "expected_errors n [] = []"
| "expected_errors n (line # rest) =
     (case line_message line of
        None \<Rightarrow> []
      | Some message \<Rightarrow> [''Line '' @ str_nat n @ '': '' @ message])
     @ expected_errors (Suc n) rest"

text \<open>The argument part of a packed line: nothing, or a dot and the dot-joined arguments.\<close>

definition dotted :: "string list \<Rightarrow> string" where
  "dotted args = (if args = [] then [] else ''.'' @ join ''.'' args)"

text \<open>
  The number of arguments that the annotation of a mnemonic reads, counted from the
  positions \<^verbatim>\<open>arguments[i]\<close> that \<open>makeDecompiledParameterComment\<close> and
  \<open>makeDecompiledSpecialsComment\<close> evaluate: the second argument of \<^verbatim>\<open>modifyWizform\<close> is
  read only after a first argument \<^verbatim>\<open>7\<close>, that of \<^verbatim>\<open>ifPlayerHasSpecials\<close> only after a
  first argument \<^verbatim>\<open>1\<close> or \<^verbatim>\<open>3\<close>; a mnemonic without a branch of its own reads none.
\<close>

definition arguments_read :: "string \<Rightarrow> string list \<Rightarrow> nat" where
  "arguments_read command arguments =
     (if command \<in> set [''givePlayerCards'', ''setupGambling'', ''ifPlayerHasCards'',
                         ''removePlayerCards''] then 3
      else if command \<in> set [''wizform'', ''choice'', ''lookAtPlayer''] then 2
      else if command = ''modifyWizform'' then
        (if arguments \<noteq> [] \<and> hd arguments = ''7'' then 2 else 1)
      else if command = ''ifPlayerHasSpecials'' then
        (if arguments \<noteq> [] \<and> (hd arguments = ''1'' \<or> hd arguments = ''3'') then 2 else 1)
      else if command \<in> set [''defaultWizForm'', ''ifIsWizform'', ''say'', ''talk'',
                              ''playAnimation'', ''playPlayerAnimation'',
                              ''startActorEffect''] then 1
      else 0)"

text \<open>
  A packed line carries enough arguments when its first dot-token is no opcode, or the
  opcode's mnemonic has no registered parameters (it is not annotated at all), or the
  line has at least as many further dot-tokens as the annotation of the mnemonic reads.
\<close>

definition enough_arguments :: "string \<Rightarrow> bool" where
  "enough_arguments line \<longleftrightarrow>
     (let tokens = split_char CHR ''.'' (strip line) in
      case map_of SCRIPT_COMMANDS (tokens ! 0) of
        None \<Rightarrow> True
      | Some command \<Rightarrow>
          (case map_of script_command_parameters command of
             None \<Rightarrow> True
           | Some parameters \<Rightarrow> arguments_read command (drop 1 tokens) \<le> length tokens - 1))"

text \<open>The mnemonics that \<open>makeDecompiledParameterComment\<close> treats in a branch of their own.\<close>

definition annotated_commands :: "string list" where
  "annotated_commands =
     [''wizform'', ''defaultWizForm'', ''ifIsWizform'', ''say'', ''talk'', ''choice'',
      ''givePlayerCards'', ''setupGambling'', ''ifPlayerHasCards'', ''removePlayerCards'',
      ''modifyWizform'', ''ifPlayerHasSpecials'', ''lookAtPlayer'', ''playAnimation'',
      ''playPlayerAnimation'', ''startActorEffect'']"

text \<open>The resolver returns no string with a newline character.\<close>

definition newline_free_resolver :: "sql_connection \<Rightarrow> bool" where
  "newline_free_resolver sql_connection \<longleftrightarrow>
     (\<forall>uid. NL \<notin> set (resolveLabel sql_connection uid)) \<and>
     (\<forall>uid. NL \<notin> set (resolveDialog sql_connection uid))"





section \<open>The tables as dictionaries\<close>


section \<open>The loop body of the compiler, case by case\<close>

lemma compile_line_blank:
  "splitByWhitespace (line_without_comments line) = [] \<Longrightarrow>
   compile_line index line (output, errors) = (output, errors)"
  by (simp add: compile_line_def)

lemma compile_line_unknown:
  "splitByWhitespace (line_without_comments line) = command # args \<Longrightarrow>
   map_of REVERSE_SCRIPT_COMMANDS command = None \<Longrightarrow>
   compile_line index line (output, errors) =
     (output, errors @ [makeError index (''Unknown command: '' @ command)])"
  by (simp add: compile_line_def)

lemma compile_line_arity:
  "splitByWhitespace (line_without_comments line) = command # args \<Longrightarrow>
   map_of REVERSE_SCRIPT_COMMANDS command = Some opcode \<Longrightarrow>
   map_of script_command_parameters command = Some parameters \<Longrightarrow>
   length args \<noteq> length parameters \<Longrightarrow>
   compile_line index line (output, errors) =
     (output, errors @ [makeError index
        (''Command '' @ command @ '' takes exactly '' @ str_nat (length parameters) @
         '' arguments: '' @ join '', '' parameters)])"
  by (simp add: compile_line_def)

lemma compile_line_no_arguments:
  "splitByWhitespace (line_without_comments line) = command # args \<Longrightarrow>
   map_of REVERSE_SCRIPT_COMMANDS command = Some opcode \<Longrightarrow>
   map_of script_command_parameters command = None \<Longrightarrow>
   args \<noteq> [] \<Longrightarrow>
   compile_line index line (output, errors) =
     (output, errors @ [makeError index (''Command takes no arguments: '' @ command)])"
  by (simp add: compile_line_def)

lemma compile_line_ok:
  "splitByWhitespace (line_without_comments line) = command # args \<Longrightarrow>
   map_of REVERSE_SCRIPT_COMMANDS command = Some opcode \<Longrightarrow>
   length args = (case map_of script_command_parameters command of
                    Some parameters \<Rightarrow> length parameters | None \<Rightarrow> 0) \<Longrightarrow>
   compile_line index line (output, errors) =
     (output @ (if index > 0 then [NL] else []) @ opcode @ dotted args, errors)"
  by (cases args)
     (auto simp: compile_line_def emit_command_def dotted_def Let_def split: option.splits)

lemma compile_line_errors:
  "snd (compile_line index line (output, errors)) =
     errors @ (case line_message line of
                 None \<Rightarrow> []
               | Some message \<Rightarrow> [''Line '' @ str_nat (Suc index) @ '': '' @ message])"
  by (auto simp: compile_line_def line_message_def makeError_def Let_def
           split: list.splits option.splits)

lemma compile_line_output:
  "\<exists>piece. fst (compile_line index line (output, errors)) = output @ piece"
  by (auto simp: compile_line_def emit_command_def Let_def split: list.splits option.splits)

section \<open>The loop of the compiler\<close>

lemma compile_loop_errors:
  "snd (compile_loop index lines (out, errs)) = errs @ expected_errors (Suc index) lines"
proof (induction lines arbitrary: index out errs)
  case Nil
  show ?case by simp
next
  case (Cons line rest)
  obtain out' errs' where st: "compile_line index line (out, errs) = (out', errs')"
    by (cases "compile_line index line (out, errs)")
  have "errs' = errs @ (case line_message line of
                 None \<Rightarrow> []
               | Some message \<Rightarrow> [''Line '' @ str_nat (Suc index) @ '': '' @ message])"
    using compile_line_errors [of index line out errs] st by simp
  then show ?case using Cons.IH [of "Suc index" out' errs'] st by simp
qed

lemma compile_loop_output:
  "\<exists>tail. fst (compile_loop index lines (out, errs)) = out @ tail"
proof (induction lines arbitrary: index out errs)
  case Nil
  show ?case by simp
next
  case (Cons line rest)
  obtain out' errs' where st: "compile_line index line (out, errs) = (out', errs')"
    by (cases "compile_line index line (out, errs)")
  obtain piece where p: "out' = out @ piece"
    using compile_line_output [of index line out errs] st by auto
  obtain tail where "fst (compile_loop (Suc index) rest (out', errs')) = out' @ tail"
    using Cons.IH by blast
  then show ?case using st p by simp
qed

lemma split_char_no_separator: "c \<notin> set s \<Longrightarrow> split_char c s = [s]"
  by (induction s) auto

lemma compile_loop_append:
  "compile_loop index (xs @ ys) st = compile_loop (index + length xs) ys (compile_loop index xs st)"
  by (induction xs arbitrary: index st) auto

lemma compile_loop_blanks:
  "\<forall>b\<in>set blanks. splitByWhitespace (line_without_comments b) = [] \<Longrightarrow>
   compile_loop index blanks (out, errs) = (out, errs)"
  by (induction blanks arbitrary: index) (auto simp: compile_line_blank)

lemma line_message_None:
  "line_message line = None \<Longrightarrow>
   splitByWhitespace (line_without_comments line) = command # args \<Longrightarrow>
   \<exists>opcode. map_of REVERSE_SCRIPT_COMMANDS command = Some opcode \<and>
     length args = (case map_of script_command_parameters command of
                      Some parameters \<Rightarrow> length parameters | None \<Rightarrow> 0)"
  by (auto simp: line_message_def split: option.splits if_splits)

lemma expected_errors_length: "length (expected_errors n lines) \<le> length lines"
  by (induction lines arbitrary: n) (auto split: option.splits simp: le_SucI)

section \<open>Tokens separated by tabs (C5)\<close>

text \<open>
  C5. \<open>splitByWhitespace\<close> is documented to split by whitespace, but it splits at the space
  character only. The line \<^verbatim>\<open>goto<TAB>5\<close> is therefore one token, which is no mnemonic,
  and the compiler rejects it, whereas \<^verbatim>\<open>goto 5\<close> compiles to \<^verbatim>\<open>K.5\<close>.
\<close>

theorem compile_tab_separated_line:
  "compile (''goto'' @ [CHR 0x09] @ ''5'') =
     Inl [''Line 1: Unknown command: goto'' @ [CHR 0x09] @ ''5''] \<and>
   compile ''goto 5'' = Inr (''K.5'' @ [NL])"
  by code_simp

section \<open>All errors are collected (C7)\<close>

text \<open>
  C7. The compiler checks every line. If at least one line has a message, the result is
  the list of all messages, one per erroneous line, in the order of the lines and each
  with the 1-based number of its physical line, and no packed text is returned; if no
  line has a message, the result is a packed text.
\<close>

theorem compile_collects_all_errors:
  "(expected_errors 1 (split_char NL script) \<noteq> [] \<longrightarrow>
      compile script = Inl (expected_errors 1 (split_char NL script))) \<and>
   (expected_errors 1 (split_char NL script) = [] \<longrightarrow>
      (\<exists>packed. compile script = Inr packed))"
proof -
  obtain out errs where r: "compile_loop 0 (split_char NL script) ([], []) = (out, errs)"
    by (cases "compile_loop 0 (split_char NL script) ([], [])")
  have "errs = expected_errors 1 (split_char NL script)"
    using compile_loop_errors [of 0 "split_char NL script" "[]" "[]"] r by simp
  then show ?thesis using r by (simp add: compile_def)
qed

text \<open>
  Two unknown commands on the lines 1 and 3 of a script of three lines give exactly two
  errors, and a script without a faulty line gives a packed text.
\<close>

theorem compile_collects_all_errors_witness:
  "expected_errors 1 (split_char NL (''foo'' @ [NL] @ ''exit'' @ [NL] @ ''bar'')) \<noteq> [] \<and>
   compile (''foo'' @ [NL] @ ''exit'' @ [NL] @ ''bar'') =
     Inl [''Line 1: Unknown command: foo'', ''Line 3: Unknown command: bar''] \<and>
   expected_errors 1 (split_char NL ''exit'') = [] \<and>
   (\<exists>packed. compile ''exit'' = Inr packed)"
proof -
  have e: "expected_errors 1 (split_char NL (''foo'' @ [NL] @ ''exit'' @ [NL] @ ''bar'')) =
             [''Line 1: Unknown command: foo'', ''Line 3: Unknown command: bar'']"
    by code_simp
  have n: "expected_errors 1 (split_char NL ''exit'') = []"
    by code_simp
  show ?thesis
    using e n compile_collects_all_errors [of "''foo'' @ [NL] @ ''exit'' @ [NL] @ ''bar''"]
      compile_collects_all_errors [of "''exit''"]
    by simp
qed

section \<open>The newline before a compiled line (C3)\<close>

text \<open>
  C3, as stated, fails: the script of an empty first line followed by \<^verbatim>\<open>exit\<close> compiles,
  and its packed text begins with a newline.
\<close>

theorem compile_leading_blank_line_counterexample:
  "compile (NL # ''exit'') = Inr (NL # ''%'' @ [NL])"
  by code_simp

text \<open>
  C3, amended. The guard of the separator is the position of the physical line: a line
  that compiles appends a newline before its opcode exactly when its index is above 0,
  whatever was emitted before. Hence in a script that compiles and whose first command
  comes after some blank or comment-only lines, the packed text begins with one newline
  followed by the opcode of that command; without such lines it begins with the opcode.
\<close>

theorem compile_newline_by_line_index:
  "(splitByWhitespace (line_without_comments line) = command # args \<and>
    line_message line = None \<longrightarrow>
      (\<exists>opcode. map_of REVERSE_SCRIPT_COMMANDS command = Some opcode \<and>
         compile_line index line (out, errs) =
           (out @ (if 0 < index then [NL] else []) @ opcode @ dotted args, errs))) \<and>
   (compile script = Inr packed \<and>
    split_char NL script = blanks @ line # rest \<and>
    (\<forall>b\<in>set blanks. splitByWhitespace (line_without_comments b) = []) \<and>
    splitByWhitespace (line_without_comments line) = command # args \<longrightarrow>
      (\<exists>opcode tail. map_of REVERSE_SCRIPT_COMMANDS command = Some opcode \<and>
         packed = (if blanks = [] then [] else [NL]) @ opcode @ tail))"
proof (intro conjI impI)
  assume a: "splitByWhitespace (line_without_comments line) = command # args \<and>
    line_message line = None"
  then obtain opcode where o: "map_of REVERSE_SCRIPT_COMMANDS command = Some opcode"
    and n: "length args = (case map_of script_command_parameters command of
                      Some parameters \<Rightarrow> length parameters | None \<Rightarrow> 0)"
    using line_message_None by blast
  show "\<exists>opcode. map_of REVERSE_SCRIPT_COMMANDS command = Some opcode \<and>
         compile_line index line (out, errs) =
           (out @ (if 0 < index then [NL] else []) @ opcode @ dotted args, errs)"
    using compile_line_ok [OF _ o n] a o by simp
next
  assume a: "compile script = Inr packed \<and>
    split_char NL script = blanks @ line # rest \<and>
    (\<forall>b\<in>set blanks. splitByWhitespace (line_without_comments b) = []) \<and>
    splitByWhitespace (line_without_comments line) = command # args"
  let ?k = "length blanks"
  have loop: "compile_loop 0 (split_char NL script) ([], []) =
              compile_loop ?k (line # rest) ([], [])"
    using a compile_loop_append [of 0 blanks "line # rest" "([], [])"]
    by (simp add: compile_loop_blanks)
  obtain out' errs' where r: "compile_loop ?k (line # rest) ([], []) = (out', errs')"
    by (cases "compile_loop ?k (line # rest) ([], [])")
  have fin: "errs' = [] \<and> packed = out' @ [NL]"
    using a loop r by (auto simp: compile_def split: if_splits)
  have "errs' = expected_errors (Suc ?k) (line # rest)"
    using compile_loop_errors [of ?k "line # rest" "[]" "[]"] r by simp
  then have "line_message line = None"
    using fin by (auto split: option.splits)
  then obtain opcode where o: "map_of REVERSE_SCRIPT_COMMANDS command = Some opcode"
    and n: "length args = (case map_of script_command_parameters command of
                      Some parameters \<Rightarrow> length parameters | None \<Rightarrow> 0)"
    using line_message_None a by blast
  have step: "compile_line ?k line ([], []) =
               ((if 0 < ?k then [NL] else []) @ opcode @ dotted args, [])"
    using compile_line_ok [OF _ o n, of line ?k "[]" "[]"] a by simp
  obtain tail where t: "fst (compile_loop (Suc ?k) rest
        ((if 0 < ?k then [NL] else []) @ opcode @ dotted args, [])) =
        ((if 0 < ?k then [NL] else []) @ opcode @ dotted args) @ tail"
    using compile_loop_output by blast
  have "out' = ((if 0 < ?k then [NL] else []) @ opcode @ dotted args) @ tail"
    using r step t by simp
  then have "packed = (if blanks = [] then [] else [NL]) @ opcode @ (dotted args @ tail @ [NL])"
    using fin by simp
  then show "\<exists>opcode tail. map_of REVERSE_SCRIPT_COMMANDS command = Some opcode \<and>
         packed = (if blanks = [] then [] else [NL]) @ opcode @ tail"
    using o by blast
qed

text \<open>An instance: two lines without tokens, then \<^verbatim>\<open>exit\<close> twice.\<close>

theorem compile_newline_by_line_index_witness:
  "splitByWhitespace (line_without_comments ''  exit // leave'') = ''exit'' # [] \<and>
   line_message ''  exit // leave'' = None \<and>
   compile (''// start'' @ [NL] @ [NL] @ ''  exit // leave'' @ [NL] @ ''exit'') = Inr (NL # ''%'' @ [NL] @ ''%'' @ [NL]) \<and>
   split_char NL (''// start'' @ [NL] @ [NL] @ ''  exit // leave'' @ [NL] @ ''exit'') =
     [''// start'', []] @ ''  exit // leave'' # [''exit''] \<and>
   splitByWhitespace (line_without_comments ''// start'') = [] \<and>
   splitByWhitespace (line_without_comments []) = [] \<and>
   (\<exists>opcode. map_of REVERSE_SCRIPT_COMMANDS ''exit'' = Some opcode \<and>
      compile_line 2 ''  exit // leave'' (''ab'', []) = (''ab'' @ [NL] @ opcode @ dotted [], [])) \<and>
   (\<exists>opcode tail. map_of REVERSE_SCRIPT_COMMANDS ''exit'' = Some opcode \<and>
      NL # ''%'' @ [NL] @ ''%'' @ [NL] = [NL] @ opcode @ tail)"
proof -
  have t: "splitByWhitespace (line_without_comments ''  exit // leave'') = ''exit'' # []"
    by code_simp
  have m: "line_message ''  exit // leave'' = None"
    by code_simp
  have c: "compile (''// start'' @ [NL] @ [NL] @ ''  exit // leave'' @ [NL] @ ''exit'') = Inr (NL # ''%'' @ [NL] @ ''%'' @ [NL])"
    by code_simp
  have s: "split_char NL (''// start'' @ [NL] @ [NL] @ ''  exit // leave'' @ [NL] @ ''exit'') =
     [''// start'', []] @ ''  exit // leave'' # [''exit'']"
    by code_simp
  have b: "splitByWhitespace (line_without_comments ''// start'') = [] \<and>
      splitByWhitespace (line_without_comments []) = []"
    by code_simp
  show ?thesis
    using t m c s b
      compile_newline_by_line_index [of "''  exit // leave''" "''exit''" "[]" 2 "''ab''" "[]"
        "''// start'' @ [NL] @ [NL] @ ''  exit // leave'' @ [NL] @ ''exit''"
        "NL # ''%'' @ [NL] @ ''%'' @ [NL]" "[''// start'', []]" "[''exit'']"]
    by simp
qed

section \<open>Arity errors (C6)\<close>

text \<open>
  C6. A script of one line whose tokens are a known mnemonic and a number of arguments
  different from the length of its registered parameter list (one fewer and one more in
  particular) compiles to exactly one error, made by \<open>makeError\<close> for line 1 from the message
  \<^verbatim>\<open>Command <m> takes exactly <n> arguments: <names joined by ", ">\<close>; a known mnemonic
  without a registered parameter list and with at least one argument gives exactly the
  one error with the message \<^verbatim>\<open>Command takes no arguments: <m>\<close>.
\<close>

theorem compile_arity_error:
  "NL \<notin> set line \<and>
   splitByWhitespace (line_without_comments line) = m # args \<and>
   map_of REVERSE_SCRIPT_COMMANDS m = Some opcode \<longrightarrow>
     (map_of script_command_parameters m = Some parameters \<and>
      length args \<noteq> length parameters \<longrightarrow>
        compile line = Inl [makeError 0 (''Command '' @ m @ '' takes exactly '' @
                              str_nat (length parameters) @ '' arguments: '' @
                              join '', '' parameters)]) \<and>
     (map_of script_command_parameters m = None \<and> args \<noteq> [] \<longrightarrow>
        compile line = Inl [makeError 0 (''Command takes no arguments: '' @ m)])"
  by (auto simp: compile_def split_char_no_separator compile_line_arity compile_line_no_arguments)

text \<open>
  Instances: \<^verbatim>\<open>say\<close> has two parameters and is given one and three arguments;
  \<^verbatim>\<open>exit\<close> has none and is given one.
\<close>

theorem compile_arity_error_witness:
  "NL \<notin> set ''say U1'' \<and>
   splitByWhitespace (line_without_comments ''say U1'') = ''say'' # [''U1''] \<and>
   NL \<notin> set ''say U1 0 1'' \<and>
   splitByWhitespace (line_without_comments ''say U1 0 1'') = ''say'' # [''U1'', ''0'', ''1''] \<and>
   map_of REVERSE_SCRIPT_COMMANDS ''say'' = Some ''!'' \<and>
   map_of script_command_parameters ''say'' = Some [''dialogUid'', ''silent''] \<and>
   compile ''say U1'' =
     Inl [''Line 1: Command say takes exactly 2 arguments: dialogUid, silent''] \<and>
   compile ''say U1 0 1'' =
     Inl [''Line 1: Command say takes exactly 2 arguments: dialogUid, silent''] \<and>
   NL \<notin> set ''exit now'' \<and>
   splitByWhitespace (line_without_comments ''exit now'') = ''exit'' # [''now''] \<and>
   map_of REVERSE_SCRIPT_COMMANDS ''exit'' = Some ''%'' \<and>
   map_of script_command_parameters ''exit'' = None \<and>
   compile ''exit now'' = Inl [''Line 1: Command takes no arguments: exit'']"
proof -
  have t1: "NL \<notin> set ''say U1'' \<and>
      splitByWhitespace (line_without_comments ''say U1'') = ''say'' # [''U1'']"
    by code_simp
  have t2: "NL \<notin> set ''say U1 0 1'' \<and>
      splitByWhitespace (line_without_comments ''say U1 0 1'') = ''say'' # [''U1'', ''0'', ''1'']"
    by code_simp
  have t3: "NL \<notin> set ''exit now'' \<and>
      splitByWhitespace (line_without_comments ''exit now'') = ''exit'' # [''now'']"
    by code_simp
  have r1: "map_of REVERSE_SCRIPT_COMMANDS ''say'' = Some ''!''" by code_simp
  have r2: "map_of REVERSE_SCRIPT_COMMANDS ''exit'' = Some ''%''" by code_simp
  have p1: "map_of script_command_parameters ''say'' = Some [''dialogUid'', ''silent'']"
    by code_simp
  have p2: "map_of script_command_parameters ''exit'' = None" by code_simp
  have m1: "makeError 0 (''Command '' @ ''say'' @ '' takes exactly '' @
              str_nat (length [''dialogUid'', ''silent'']) @ '' arguments: '' @
              join '', '' [''dialogUid'', ''silent'']) =
            ''Line 1: Command say takes exactly 2 arguments: dialogUid, silent''"
    by code_simp
  have m2: "makeError 0 (''Command takes no arguments: '' @ ''exit'') =
            ''Line 1: Command takes no arguments: exit''"
    by code_simp
  have c1: "compile ''say U1'' =
     Inl [''Line 1: Command say takes exactly 2 arguments: dialogUid, silent'']"
    using compile_arity_error [of "''say U1''" "''say''" "[''U1'']" "''!''"
        "[''dialogUid'', ''silent'']"] t1 r1 p1 m1
    by simp
  have c2: "compile ''say U1 0 1'' =
     Inl [''Line 1: Command say takes exactly 2 arguments: dialogUid, silent'']"
    using compile_arity_error [of "''say U1 0 1''" "''say''" "[''U1'', ''0'', ''1'']" "''!''"
        "[''dialogUid'', ''silent'']"] t2 r1 p1 m1
    by simp
  have c3: "compile ''exit now'' = Inl [''Line 1: Command takes no arguments: exit'']"
    using compile_arity_error [of "''exit now''" "''exit''" "[''now'']" "''%''" "[]"] t3 r2 p2 m2
    by simp
  show ?thesis using t1 t2 t3 r1 r2 p1 p2 c1 c2 c3 by simp
qed

section \<open>At most one error for a line (C9)\<close>

text \<open>
  C9. The loop body adds at most one error for its line. A line whose first token is no
  mnemonic adds exactly the unknown-command error, with no arity check, and leaves the
  output as it was; a line that fails the arity check adds exactly that arity error and
  leaves the output as it was. A returned batch of errors is therefore never longer than
  the number of physical lines.
\<close>

theorem compile_line_one_error:
  "(splitByWhitespace (line_without_comments line) = command # args \<and>
    map_of REVERSE_SCRIPT_COMMANDS command = None \<longrightarrow>
      compile_line index line (out, errs) =
        (out, errs @ [makeError index (''Unknown command: '' @ command)])) \<and>
   (splitByWhitespace (line_without_comments line) = command # args \<and>
    map_of REVERSE_SCRIPT_COMMANDS command = Some opcode \<and>
    map_of script_command_parameters command = Some parameters \<and>
    length args \<noteq> length parameters \<longrightarrow>
      compile_line index line (out, errs) =
        (out, errs @ [makeError index
           (''Command '' @ command @ '' takes exactly '' @ str_nat (length parameters) @
            '' arguments: '' @ join '', '' parameters)])) \<and>
   (splitByWhitespace (line_without_comments line) = command # args \<and>
    map_of REVERSE_SCRIPT_COMMANDS command = Some opcode \<and>
    map_of script_command_parameters command = None \<and> args \<noteq> [] \<longrightarrow>
      compile_line index line (out, errs) =
        (out, errs @ [makeError index (''Command takes no arguments: '' @ command)])) \<and>
   (\<exists>new. snd (compile_line index line (out, errs)) = errs @ new \<and> length new \<le> 1) \<and>
   (compile script = Inl errors \<longrightarrow> length errors \<le> length (split_char NL script))"
proof (intro conjI impI)
  show "\<exists>new. snd (compile_line index line (out, errs)) = errs @ new \<and> length new \<le> 1"
    using compile_line_errors [of index line out errs] by (auto split: option.splits)
next
  assume a: "compile script = Inl errors"
  obtain out' errs' where r: "compile_loop 0 (split_char NL script) ([], []) = (out', errs')"
    by (cases "compile_loop 0 (split_char NL script) ([], [])")
  have "errs' = expected_errors 1 (split_char NL script)"
    using compile_loop_errors [of 0 "split_char NL script" "[]" "[]"] r by simp
  moreover have "errors = errs'"
    using a r by (auto simp: compile_def split: if_splits)
  ultimately show "length errors \<le> length (split_char NL script)"
    using expected_errors_length by simp
qed (auto simp: compile_line_unknown compile_line_arity compile_line_no_arguments)

text \<open>Instances of the three error branches at index 4, and a script with two faulty lines.\<close>

theorem compile_line_one_error_witness:
  "splitByWhitespace (line_without_comments ''foo 1 2'') = ''foo'' # [''1'', ''2''] \<and>
   map_of REVERSE_SCRIPT_COMMANDS ''foo'' = None \<and>
   compile_line 4 ''foo 1 2'' (''%'', [''e'']) =
     (''%'', [''e'', ''Line 5: Unknown command: foo'']) \<and>
   splitByWhitespace (line_without_comments ''goto'') = ''goto'' # [] \<and>
   map_of REVERSE_SCRIPT_COMMANDS ''goto'' = Some ''K'' \<and>
   map_of script_command_parameters ''goto'' = Some [''labelId''] \<and>
   compile_line 4 ''goto'' (''%'', [''e'']) =
     (''%'', [''e'', ''Line 5: Command goto takes exactly 1 arguments: labelId'']) \<and>
   splitByWhitespace (line_without_comments ''exit now'') = ''exit'' # [''now''] \<and>
   map_of REVERSE_SCRIPT_COMMANDS ''exit'' = Some ''%'' \<and>
   map_of script_command_parameters ''exit'' = None \<and>
   compile_line 4 ''exit now'' (''%'', [''e'']) =
     (''%'', [''e'', ''Line 5: Command takes no arguments: exit'']) \<and>
   compile (''foo 1 2'' @ [NL] @ ''goto'') =
     Inl [''Line 1: Unknown command: foo'',
          ''Line 2: Command goto takes exactly 1 arguments: labelId''] \<and>
   length [''Line 1: Unknown command: foo'',
           ''Line 2: Command goto takes exactly 1 arguments: labelId'']
     \<le> length (split_char NL (''foo 1 2'' @ [NL] @ ''goto''))"
proof -
  have t1: "splitByWhitespace (line_without_comments ''foo 1 2'') = ''foo'' # [''1'', ''2'']"
    by code_simp
  have t2: "splitByWhitespace (line_without_comments ''goto'') = ''goto'' # []"
    by code_simp
  have t3: "splitByWhitespace (line_without_comments ''exit now'') = ''exit'' # [''now'']"
    by code_simp
  have r1: "map_of REVERSE_SCRIPT_COMMANDS ''foo'' = None" by code_simp
  have r2: "map_of REVERSE_SCRIPT_COMMANDS ''goto'' = Some ''K''" by code_simp
  have r3: "map_of REVERSE_SCRIPT_COMMANDS ''exit'' = Some ''%''" by code_simp
  have p2: "map_of script_command_parameters ''goto'' = Some [''labelId'']" by code_simp
  have p3: "map_of script_command_parameters ''exit'' = None" by code_simp
  have m1: "makeError 4 (''Unknown command: '' @ ''foo'') = ''Line 5: Unknown command: foo''"
    by code_simp
  have m2: "makeError 4 (''Command '' @ ''goto'' @ '' takes exactly '' @
              str_nat (length [''labelId'']) @ '' arguments: '' @ join '', '' [''labelId'']) =
            ''Line 5: Command goto takes exactly 1 arguments: labelId''"
    by code_simp
  have m3: "makeError 4 (''Command takes no arguments: '' @ ''exit'') =
            ''Line 5: Command takes no arguments: exit''"
    by code_simp
  have c: "compile (''foo 1 2'' @ [NL] @ ''goto'') =
     Inl [''Line 1: Unknown command: foo'',
          ''Line 2: Command goto takes exactly 1 arguments: labelId'']"
    by code_simp
  have s1: "compile_line 4 ''foo 1 2'' (''%'', [''e'']) =
     (''%'', [''e'', ''Line 5: Unknown command: foo''])"
    using compile_line_one_error [of "''foo 1 2''" "''foo''" "[''1'', ''2'']" 4 "''%''" "[''e'']"]
      t1 r1 m1 by simp
  have s2: "compile_line 4 ''goto'' (''%'', [''e'']) =
     (''%'', [''e'', ''Line 5: Command goto takes exactly 1 arguments: labelId''])"
    using compile_line_one_error [of "''goto''" "''goto''" "[]" 4 "''%''" "[''e'']" "''K''"
        "[''labelId'']"]
      t2 r2 p2 m2 by simp
  have s3: "compile_line 4 ''exit now'' (''%'', [''e'']) =
     (''%'', [''e'', ''Line 5: Command takes no arguments: exit''])"
    using compile_line_one_error [of "''exit now''" "''exit''" "[''now'']" 4 "''%''" "[''e'']"
        "''%''" "[]"]
      t3 r3 p3 m3 by simp
  have s4: "length [''Line 1: Unknown command: foo'',
           ''Line 2: Command goto takes exactly 1 arguments: labelId'']
     \<le> length (split_char NL (''foo 1 2'' @ [NL] @ ''goto''))"
    using compile_line_one_error [of _ _ _ _ _ _ _ _ "''foo 1 2'' @ [NL] @ ''goto''"
        "[''Line 1: Unknown command: foo'',
          ''Line 2: Command goto takes exactly 1 arguments: labelId'']"] c
    by blast
  show ?thesis using t1 t2 t3 r1 r2 r3 p2 p3 c s1 s2 s3 s4 by simp
qed

section \<open>The annotation, mnemonic by mnemonic\<close>

lemma annotated_parameters:
  "map_of script_command_parameters ''wizform'' = Some [''deckSlot'', ''fairyId'', ''level'']"
  "map_of script_command_parameters ''defaultWizForm'' = Some [''fairyId'', ''groupOrSlot'', ''level'']"
  "map_of script_command_parameters ''ifIsWizform'' = Some [''fairyId'']"
  "map_of script_command_parameters ''say'' = Some [''dialogUid'', ''silent'']"
  "map_of script_command_parameters ''talk'' = Some [''uid'']"
  "map_of script_command_parameters ''choice'' = Some [''ladelId'', ''uid'']"
  "map_of script_command_parameters ''givePlayerCards'' = Some [''amount'', ''cardType'', ''id'']"
  "map_of script_command_parameters ''setupGambling'' = Some [''amount'', ''cardType'', ''id'']"
  "map_of script_command_parameters ''ifPlayerHasCards'' = Some [''amount'', ''cardType'', ''id'']"
  "map_of script_command_parameters ''removePlayerCards'' = Some [''amount'', ''cardType'', ''id'']"
  "map_of script_command_parameters ''modifyWizform'' = Some [''subcommand'', ''argument'']"
  "map_of script_command_parameters ''ifPlayerHasSpecials'' = Some [''condition'', ''argument'']"
  "map_of script_command_parameters ''lookAtPlayer'' = Some [''seconds/10'', ''mode'']"
  "map_of script_command_parameters ''playAnimation'' = Some [''animationType'', ''UNUSED'']"
  "map_of script_command_parameters ''playPlayerAnimation'' = Some [''animationType'', ''UNUSED'']"
  "map_of script_command_parameters ''startActorEffect'' = Some [''id'']"
  by code_simp+

lemma comment_plain:
  assumes "map_of script_command_parameters command = Some parameters"
    and "command \<notin> set annotated_commands"
  shows "makeDecompiledParameterComment command arguments sql_connection =
           Inr ('' // '' @ join '', '' parameters)"
  using assms by (simp add: makeDecompiledParameterComment_def annotated_commands_def)

lemma comment_equations:
  "makeDecompiledParameterComment ''wizform'' arguments sql_connection =
     with_item arguments 1 (\<lambda>a1.
       Inr ('' // deckSlot, fairyId, level; '' @ resolveFairyName sql_connection a1))"
  "makeDecompiledParameterComment ''defaultWizForm'' arguments sql_connection =
     with_item arguments 0 (\<lambda>a0.
       Inr ('' // fairyId, groupOrSlot, level; '' @ resolveFairyName sql_connection a0))"
  "makeDecompiledParameterComment ''ifIsWizform'' arguments sql_connection =
     with_item arguments 0 (\<lambda>a0.
       Inr ('' // fairyId; '' @ resolveFairyName sql_connection a0))"
  "makeDecompiledParameterComment ''say'' arguments sql_connection =
     with_item arguments 0 (\<lambda>a0.
       Inr ('' // dialogUid, silent; '' @ resolveDialog sql_connection a0))"
  "makeDecompiledParameterComment ''talk'' arguments sql_connection =
     with_item arguments 0 (\<lambda>a0.
       Inr ('' // uid; '' @ resolveDialog sql_connection a0))"
  "makeDecompiledParameterComment ''choice'' arguments sql_connection =
     with_item arguments 1 (\<lambda>a1.
       Inr ('' // ladelId, uid; '' @ resolveDialog sql_connection a1))"
  "makeDecompiledParameterComment ''givePlayerCards'' arguments sql_connection =
     with_item arguments 1 (\<lambda>a1. with_item arguments 2 (\<lambda>a2.
       Inr ('' // amount, cardType, id; '' @ resolveCardDescription sql_connection a1 a2)))"
  "makeDecompiledParameterComment ''setupGambling'' arguments sql_connection =
     with_item arguments 1 (\<lambda>a1. with_item arguments 2 (\<lambda>a2.
       Inr ('' // amount, cardType, id; '' @ resolveCardDescription sql_connection a1 a2)))"
  "makeDecompiledParameterComment ''ifPlayerHasCards'' arguments sql_connection =
     with_item arguments 1 (\<lambda>a1. with_item arguments 2 (\<lambda>a2.
       Inr ('' // amount, cardType, id; '' @ resolveCardDescription sql_connection a1 a2)))"
  "makeDecompiledParameterComment ''removePlayerCards'' arguments sql_connection =
     with_item arguments 1 (\<lambda>a1. with_item arguments 2 (\<lambda>a2.
       Inr ('' // amount, cardType, id; '' @ resolveCardDescription sql_connection a1 a2)))"
  "makeDecompiledParameterComment ''modifyWizform'' arguments sql_connection =
     with_item arguments 0 (\<lambda>a0.
       if a0 = ''7'' then
         with_item arguments 1 (\<lambda>a1.
           Inr ('' // subcommand, argument'' @ ''; Evolve to '' @
                resolveFairyName sql_connection a1))
       else
         (case map_of subcommand_descriptions a0 of
            Some description \<Rightarrow> Inr ('' // subcommand, argument'' @ ''; '' @ description)
          | None \<Rightarrow> Inr '' // subcommand, argument''))"
  "makeDecompiledParameterComment ''ifPlayerHasSpecials'' arguments sql_connection =
     (case makeDecompiledSpecialsComment arguments of
        Inl e \<Rightarrow> Inl e
      | Inr specials \<Rightarrow> Inr ('' // condition, argument'' @ specials))"
  "makeDecompiledParameterComment ''lookAtPlayer'' arguments sql_connection =
     with_item arguments 1 (\<lambda>a1.
       case map_of modes a1 of
         Some mode \<Rightarrow> Inr ('' // seconds/10, mode'' @ ''; '' @ mode)
       | None \<Rightarrow> Inr '' // seconds/10, mode'')"
  "makeDecompiledParameterComment ''playAnimation'' arguments sql_connection =
     with_item arguments 0 (\<lambda>a0.
       Inr ('' // animationType, UNUSED; Animation: '' @
            indexListByMaybeInt AVAILABLE_ANIMATIONS a0))"
  "makeDecompiledParameterComment ''playPlayerAnimation'' arguments sql_connection =
     with_item arguments 0 (\<lambda>a0.
       Inr ('' // animationType, UNUSED; Animation: '' @
            indexListByMaybeInt AVAILABLE_ANIMATIONS a0))"
  "makeDecompiledParameterComment ''startActorEffect'' arguments sql_connection =
     with_item arguments 0 (\<lambda>a0. Inr ('' // id'' @ makeActorEffectComment a0))"
  by (simp_all add: makeDecompiledParameterComment_def annotated_parameters Let_def)

lemma specials_returns:
  "(\<exists>specials. makeDecompiledSpecialsComment arguments = Inr specials) \<longleftrightarrow>
   (if arguments \<noteq> [] \<and> (hd arguments = ''1'' \<or> hd arguments = ''3'') then 2 else 1)
     \<le> length arguments"
  by (cases arguments)
     (auto simp: makeDecompiledSpecialsComment_def with_item_def Suc_le_eq)

lemma annotated_returns:
  "\<forall>command\<in>set annotated_commands.
     (\<exists>comment. makeDecompiledParameterComment command arguments sql_connection = Inr comment)
     \<longleftrightarrow> arguments_read command arguments \<le> length arguments"
proof -
  have specials:
    "(\<exists>comment. (case makeDecompiledSpecialsComment arguments of
                   Inl e \<Rightarrow> Inl e
                 | Inr specials \<Rightarrow> Inr ('' // condition, argument'' @ specials)) = Inr comment)
     \<longleftrightarrow> arguments_read ''ifPlayerHasSpecials'' arguments \<le> length arguments"
  proof -
    have "(\<exists>comment. (case makeDecompiledSpecialsComment arguments of
                   Inl e \<Rightarrow> Inl e
                 | Inr specials \<Rightarrow> Inr ('' // condition, argument'' @ specials)) = Inr comment)
          \<longleftrightarrow> (\<exists>specials. makeDecompiledSpecialsComment arguments = Inr specials)"
      by (cases "makeDecompiledSpecialsComment arguments") auto
    then show ?thesis
      using specials_returns [of arguments] by (simp add: arguments_read_def)
  qed
  have modify:
    "(\<exists>comment. makeDecompiledParameterComment ''modifyWizform'' arguments sql_connection
                  = Inr comment)
     \<longleftrightarrow> arguments_read ''modifyWizform'' arguments \<le> length arguments"
    by (cases arguments)
       (auto simp: comment_equations with_item_def arguments_read_def Suc_le_eq
             split: option.splits)
  have look:
    "(\<exists>comment. makeDecompiledParameterComment ''lookAtPlayer'' arguments sql_connection
                  = Inr comment)
     \<longleftrightarrow> arguments_read ''lookAtPlayer'' arguments \<le> length arguments"
    by (auto simp: comment_equations with_item_def arguments_read_def split: option.splits)
  have others:
    "\<forall>command\<in>set [''wizform'', ''defaultWizForm'', ''ifIsWizform'', ''say'', ''talk'',
      ''choice'', ''givePlayerCards'', ''setupGambling'', ''ifPlayerHasCards'',
      ''removePlayerCards'', ''playAnimation'', ''playPlayerAnimation'', ''startActorEffect''].
     (\<exists>comment. makeDecompiledParameterComment command arguments sql_connection = Inr comment)
     \<longleftrightarrow> arguments_read command arguments \<le> length arguments"
    by (auto simp: comment_equations(1-10,14-16) with_item_def arguments_read_def)
       (metis Suc_lessI length_greater_0_conv)+
  show ?thesis
    unfolding annotated_commands_def
    using specials modify look others
    by (simp add: comment_equations(12))
qed

lemma arguments_read_plain:
  "command \<notin> set annotated_commands \<Longrightarrow> arguments_read command arguments = 0"
  by (simp add: annotated_commands_def arguments_read_def)

lemma comment_returns:
  assumes "map_of script_command_parameters command = Some parameters"
  shows "(\<exists>comment. makeDecompiledParameterComment command arguments sql_connection
            = Inr comment)
         \<longleftrightarrow> arguments_read command arguments \<le> length arguments"
proof (cases "command \<in> set annotated_commands")
  case False
  then show ?thesis using comment_plain [OF assms False] arguments_read_plain by simp
next
  case True
  then show ?thesis using annotated_returns by blast
qed


lemma indexListByMaybeInt_bad:
  "bad_index string_list a \<Longrightarrow> indexListByMaybeInt string_list a = ''NULL''"
  by (auto simp: bad_index_def indexListByMaybeInt_def split: option.splits)

section \<open>Indices outside an enumeration table (C8)\<close>

text \<open>
  C8. An argument that is not the text of an integer, or is negative, or is at least the
  length of the table, makes \<open>indexListByMaybeInt\<close> return the marker \<^verbatim>\<open>NULL\<close>. The two
  annotations that index a table, the element class of \<^verbatim>\<open>ifPlayerHasSpecials 3\<close> and the
  animation of \<^verbatim>\<open>playAnimation\<close> and \<^verbatim>\<open>playPlayerAnimation\<close>, then return a comment
  with that marker and raise nothing.
\<close>

theorem enum_index_unresolvable:
  "(bad_index string_list a \<longrightarrow> indexListByMaybeInt string_list a = ''NULL'') \<and>
   (bad_index ELEMENT_CLASSES a \<longrightarrow>
      makeDecompiledParameterComment ''ifPlayerHasSpecials'' [''3'', a] sql_connection =
        Inr '' // condition, argument; Player can show NULL Fairy'') \<and>
   (bad_index AVAILABLE_ANIMATIONS a \<longrightarrow>
      makeDecompiledParameterComment ''playAnimation'' [a, u] sql_connection =
        Inr '' // animationType, UNUSED; Animation: NULL'' \<and>
      makeDecompiledParameterComment ''playPlayerAnimation'' [a, u] sql_connection =
        Inr '' // animationType, UNUSED; Animation: NULL'')"
  by (simp add: indexListByMaybeInt_bad comment_equations makeDecompiledSpecialsComment_def
        with_item_def)

text \<open>
  Instances: the element class 99, the animation -1, a text that is no number, the text
  \<^verbatim>\<open>\x1f1\<close> (which \<^verbatim>\<open>strip\<close> would turn into a number, but \<^verbatim>\<open>int\<close> refuses), and the
  whole line \<^verbatim>\<open>@.3.99\<close> decompiled.
\<close>

theorem enum_index_unresolvable_witness:
  "bad_index ELEMENT_CLASSES ''99'' \<and> bad_index AVAILABLE_ANIMATIONS ''-1'' \<and>
   bad_index ELEMENT_CLASSES ''x'' \<and> bad_index ELEMENT_CLASSES [CHR 0x1F, CHR ''1''] \<and>
   indexListByMaybeInt ELEMENT_CLASSES ''x'' = ''NULL'' \<and>
   indexListByMaybeInt ELEMENT_CLASSES [CHR 0x1F, CHR ''1''] = ''NULL'' \<and>
   makeDecompiledParameterComment ''ifPlayerHasSpecials'' [''3'', ''99''] demo_connection =
     Inr '' // condition, argument; Player can show NULL Fairy'' \<and>
   makeDecompiledParameterComment ''playAnimation'' [''-1'', ''0''] demo_connection =
     Inr '' // animationType, UNUSED; Animation: NULL'' \<and>
   decompile demo_connection ''@.3.99'' =
     Inr (''ifPlayerHasSpecials 3 99 // condition, argument; Player can show NULL Fairy'' @ [NL])"
proof -
  have a: "bad_index ELEMENT_CLASSES ''99''" by code_simp
  have b: "bad_index AVAILABLE_ANIMATIONS ''-1''" by code_simp
  have c: "bad_index ELEMENT_CLASSES ''x''" by code_simp
  have e: "bad_index ELEMENT_CLASSES [CHR 0x1F, CHR ''1'']" by code_simp
  have d: "decompile demo_connection ''@.3.99'' =
     Inr (''ifPlayerHasSpecials 3 99 // condition, argument; Player can show NULL Fairy'' @ [NL])"
    by code_simp
  show ?thesis
    using a b c d e
      enum_index_unresolvable [of ELEMENT_CLASSES "''99''" demo_connection "''0''"]
      enum_index_unresolvable [of AVAILABLE_ANIMATIONS "''-1''" demo_connection "''0''"]
      enum_index_unresolvable [of ELEMENT_CLASSES "''x''" demo_connection "''0''"]
      enum_index_unresolvable [of ELEMENT_CLASSES "[CHR 0x1F, CHR ''1'']" demo_connection "''0''"]
    by simp
qed

section \<open>When the decompiler returns (C1)\<close>

lemma decompile_line_returns:
  "(\<exists>st'. decompile_line sql_connection line st = Inr st') \<longleftrightarrow> enough_arguments line"
proof -
  obtain result indentation where st: "st = (result, indentation)" by (cases st)
  let ?tokens = "split_char CHR ''.'' (strip line)"
  show ?thesis
  proof (cases "map_of SCRIPT_COMMANDS (?tokens ! 0)")
    case None
    then show ?thesis by (simp add: decompile_line_def enough_arguments_def st)
  next
    case (Some command)
    show ?thesis
    proof (cases "map_of script_command_parameters command")
      case None
      then show ?thesis using Some
        by (simp add: decompile_line_def enough_arguments_def st Let_def)
    next
      case inner: (Some parameters)
      have "(\<exists>st'. decompile_line sql_connection line st = Inr st') \<longleftrightarrow>
            (\<exists>comment. makeDecompiledParameterComment command (drop 1 ?tokens) sql_connection
               = Inr comment)"
        using Some inner
        by (cases "makeDecompiledParameterComment command (drop 1 ?tokens) sql_connection")
           (simp_all add: decompile_line_def st Let_def)
      then show ?thesis
        using comment_returns [OF inner, of "drop 1 ?tokens" sql_connection] Some inner
        by (simp add: enough_arguments_def Let_def)
    qed
  qed
qed

lemma decompile_loop_returns:
  "(\<exists>st'. decompile_loop sql_connection lines st = Inr st') \<longleftrightarrow>
   (\<forall>line\<in>set lines. enough_arguments line)"
proof (induction lines arbitrary: st)
  case Nil
  show ?case by simp
next
  case (Cons line rest)
  show ?case
  proof (cases "decompile_line sql_connection line st")
    case (Inl e)
    then have "\<not> enough_arguments line"
      using decompile_line_returns [of sql_connection line st] by simp
    then show ?thesis using Inl by simp
  next
    case (Inr st1)
    then have "enough_arguments line"
      using decompile_line_returns [of sql_connection line st] by blast
    then show ?thesis using Inr Cons.IH [of st1] by simp
  qed
qed

text \<open>
  C1, as stated, fails: the packed line \<^verbatim>\<open>@\<close> is the opcode of \<^verbatim>\<open>ifPlayerHasSpecials\<close>
  without arguments, and its annotation reads \<^verbatim>\<open>arguments[0]\<close>.
\<close>

theorem decompile_raises_on_missing_argument:
  "decompile demo_connection ''@'' = Inl IndexError"
  by code_simp

text \<open>
  C1, amended. The decompiler counts no arguments, and the annotation reads them by
  position. For every database and every packed text, \<open>decompile\<close> returns an annotated
  text exactly when each line carries the arguments that the annotation of its mnemonic
  reads. Every line that does not begin with an opcode does, and so does every line of a
  mnemonic that the annotation has no branch for, with any number of arguments.
\<close>

theorem decompile_returns_iff_arguments_read:
  "(\<exists>annotated. decompile sql_connection script = Inr annotated) \<longleftrightarrow>
   (\<forall>line\<in>set (split_char NL script). enough_arguments line)"
proof -
  have "(\<exists>annotated. decompile sql_connection script = Inr annotated) \<longleftrightarrow>
        (\<exists>st'. decompile_loop sql_connection (split_char NL script) ([], 0) = Inr st')"
    by (cases "decompile_loop sql_connection (split_char NL script) ([], 0)")
       (auto simp: decompile_def)
  then show ?thesis
    using decompile_loop_returns [of sql_connection "split_char NL script" "([], 0)"] by simp
qed

text \<open>
  An instance in which three commands have fewer arguments than registered parameters
  and still decompile: \<^verbatim>\<open>goto\<close> without its label, \<^verbatim>\<open>ifPlayerHasSpecials 2\<close> without
  its second argument, \<^verbatim>\<open>say\<close> without its second argument; and a line that is no
  command.
\<close>

theorem decompile_returns_iff_arguments_read_witness:
  "enough_arguments ''K'' \<and> enough_arguments ''@.2'' \<and> enough_arguments ''!.U1'' \<and>
   enough_arguments '' hello. world'' \<and>
   split_char NL (''K'' @ [NL] @ ''@.2'' @ [NL] @ ''!.U1'' @ [NL] @ '' hello. world'') =
     [''K'', ''@.2'', ''!.U1'', '' hello. world''] \<and>
   (\<exists>annotated. decompile demo_connection
      (''K'' @ [NL] @ ''@.2'' @ [NL] @ ''!.U1'' @ [NL] @ '' hello. world'') = Inr annotated) \<and>
   decompile demo_connection
      (''K'' @ [NL] @ ''@.2'' @ [NL] @ ''!.U1'' @ [NL] @ '' hello. world'') =
     Inr (''goto // labelId'' @ [NL] @
          ''ifPlayerHasSpecials 2 // condition, argument; Player has at least n fairies'' @ [NL] @
          ''    say U1 // dialogUid, silent; Hello'' @ [NL] @
          '' hello. world'' @ [NL])"
proof -
  let ?script = "''K'' @ [NL] @ ''@.2'' @ [NL] @ ''!.U1'' @ [NL] @ '' hello. world''"
  have e: "enough_arguments ''K'' \<and> enough_arguments ''@.2'' \<and> enough_arguments ''!.U1'' \<and>
      enough_arguments '' hello. world''"
    by code_simp
  have s: "split_char NL ?script = [''K'', ''@.2'', ''!.U1'', '' hello. world'']"
    by code_simp
  have d: "decompile demo_connection ?script =
     Inr (''goto // labelId'' @ [NL] @
          ''ifPlayerHasSpecials 2 // condition, argument; Player has at least n fairies'' @ [NL] @
          ''    say U1 // dialogUid, silent; Hello'' @ [NL] @
          '' hello. world'' @ [NL])"
    by code_simp
  have h: "\<forall>line\<in>set (split_char NL ?script). enough_arguments line"
    unfolding s using e by simp
  have "\<exists>annotated. decompile demo_connection ?script = Inr annotated"
    using decompile_returns_iff_arguments_read [of demo_connection ?script] h by blast
  then show ?thesis using e s d by blast
qed

section \<open>The column of \<open>else\<close> (C4)\<close>

text \<open>
  C4. An \<^verbatim>\<open>else\<close> is written without any indentation, whatever the nesting. In the
  packed text of two nested \<^verbatim>\<open>ifTriggerIsActive\<close> blocks with an \<^verbatim>\<open>else\<close> in the inner
  one, the inner \<^verbatim>\<open>if\<close> is written at column 4 and its \<^verbatim>\<open>else\<close> at column 0, while the
  \<^verbatim>\<open>endIf\<close> of the same block is written at column 4.
\<close>

theorem decompile_nested_else_column:
  "decompile sql_connection
     (''=.1'' @ [NL] @ ''=.2'' @ [NL] @ ''8'' @ [NL] @ ''7'' @ [NL] @ ''7'') =
   Inr (''ifTriggerIsActive 1 // id'' @ [NL] @
        ''    ifTriggerIsActive 2 // id'' @ [NL] @
        ''else'' @ [NL] @
        ''    endIf'' @ [NL] @
        ''endIf'' @ [NL])"
  by code_simp

section \<open>Facts about splitting, joining and stripping\<close>

lemma split_char_nonempty: "split_char c s \<noteq> []"
  by (induction s) (auto, metis cons_hd.elims list.distinct(1))

lemma cons_hd_length: "xs \<noteq> [] \<Longrightarrow> length (cons_hd x xs) = length xs"
  by (cases xs) auto

lemma split_char_length: "length (split_char c s) = Suc (count_list s c)"
  by (induction s) (auto simp: cons_hd_length split_char_nonempty)

lemma cons_hd_set: "w \<in> set (cons_hd x xs) \<Longrightarrow> set w \<subseteq> insert x (\<Union> (set ` set xs))"
  by (cases xs) auto

lemma split_char_set: "w \<in> set (split_char c s) \<Longrightarrow> set w \<subseteq> set s"
proof (induction s arbitrary: w)
  case Nil
  then show ?case by simp
next
  case (Cons x xs)
  show ?case
  proof (cases "x = c")
    case True
    then show ?thesis using Cons by auto
  next
    case False
    then have "w \<in> set (cons_hd x (split_char c xs))" using Cons.prems by simp
    then have "set w \<subseteq> insert x (\<Union> (set ` set (split_char c xs)))" by (rule cons_hd_set)
    then show ?thesis using Cons.IH by auto
  qed
qed

lemma strip_set: "set (strip s) \<subseteq> set s"
  by (auto simp: strip_def dest!: set_dropWhileD)

lemma join_set: "c \<in> set (join sep xs) \<Longrightarrow> c \<in> set sep \<or> (\<exists>w\<in>set xs. c \<in> set w)"
  by (induction sep xs rule: join.induct) auto

lemma join_Cons: "join sep (x # xs) = x @ (if xs = [] then [] else sep @ join sep xs)"
  by (cases xs) auto

lemma cons_hd_append: "xs \<noteq> [] \<Longrightarrow> cons_hd x (xs @ ys) = cons_hd x xs @ ys"
  by (cases xs) auto

lemma split_char_snoc: "split_char c (s @ [c]) = split_char c s @ [[]]"
  by (induction s) (auto simp: cons_hd_append split_char_nonempty)

lemma split_char_pieces: "w \<in> set (split_char c s) \<Longrightarrow> c \<notin> set w"
proof (induction s arbitrary: w)
  case Nil
  then show ?case by simp
next
  case (Cons x xs)
  show ?case
  proof (cases "x = c")
    case True
    then show ?thesis using Cons by auto
  next
    case False
    obtain v vs where v: "split_char c xs = v # vs"
      using split_char_nonempty [of c xs] by (cases "split_char c xs") auto
    then show ?thesis using Cons False by auto
  qed
qed






section \<open>Strings without a newline\<close>

lemma tokens_newline_free:
  assumes "NL \<notin> set line"
  shows "NL \<notin> set (join '' '' (drop 1 (split_char CHR ''.'' (strip line))))"
proof
  assume "NL \<in> set (join '' '' (drop 1 (split_char CHR ''.'' (strip line))))"
  then obtain w where w: "w \<in> set (drop 1 (split_char CHR ''.'' (strip line)))" "NL \<in> set w"
    using join_set [of NL "'' ''"] by (auto simp: NL_def)
  then have "w \<in> set (split_char CHR ''.'' (strip line))" by (meson in_set_dropD)
  then have "set w \<subseteq> set line" using split_char_set strip_set by blast
  then show False using w assms by auto
qed

lemma commands_newline_free:
  "map_of SCRIPT_COMMANDS k = Some command \<Longrightarrow> NL \<notin> set command"
proof -
  have "list_all (\<lambda>(k, v). NL \<notin> set v) SCRIPT_COMMANDS" by code_simp
  then show "map_of SCRIPT_COMMANDS k = Some command \<Longrightarrow> NL \<notin> set command"
    by (auto simp: list_all_iff dest!: map_of_SomeD)
qed

lemma parameters_newline_free:
  "map_of script_command_parameters command = Some parameters \<Longrightarrow>
   NL \<notin> set (join '', '' parameters)"
proof -
  have "list_all (\<lambda>(k, ps). NL \<notin> set (join '', '' ps)) script_command_parameters"
    by code_simp
  then show "map_of script_command_parameters command = Some parameters \<Longrightarrow>
   NL \<notin> set (join '', '' parameters)"
    by (auto simp: list_all_iff dest!: map_of_SomeD)
qed

lemma indexListByMaybeInt_cases:
  "indexListByMaybeInt string_list a = ''NULL'' \<or> indexListByMaybeInt string_list a \<in> set string_list"
  by (auto simp: indexListByMaybeInt_def split: option.splits)

lemma enum_newline_free:
  "NL \<notin> set (indexListByMaybeInt ELEMENT_CLASSES a)"
  "NL \<notin> set (indexListByMaybeInt AVAILABLE_ANIMATIONS a)"
proof -
  have e: "list_all (\<lambda>w. NL \<notin> set w) ELEMENT_CLASSES" by code_simp
  have a: "list_all (\<lambda>w. NL \<notin> set w) AVAILABLE_ANIMATIONS" by code_simp
  have n: "NL \<notin> set ''NULL''" by (simp add: NL_def)
  show "NL \<notin> set (indexListByMaybeInt ELEMENT_CLASSES a)"
    using indexListByMaybeInt_cases [of ELEMENT_CLASSES a] e n by (auto simp: list_all_iff)
  show "NL \<notin> set (indexListByMaybeInt AVAILABLE_ANIMATIONS a)"
    using indexListByMaybeInt_cases [of AVAILABLE_ANIMATIONS a] a n by (auto simp: list_all_iff)
qed

lemma descriptions_newline_free:
  "map_of subcommand_descriptions a = Some description \<Longrightarrow> NL \<notin> set description"
  "map_of modes a = Some mode \<Longrightarrow> NL \<notin> set mode"
  by (auto simp: subcommand_descriptions_def modes_def NL_def split: if_splits)

lemma actor_effect_newline_free: "NL \<notin> set (makeActorEffectComment a)"
  by (simp add: makeActorEffectComment_def NL_def)

lemma card_name_newline_free:
  "newline_free_resolver sql_connection \<Longrightarrow>
   NL \<notin> set (resolveCardIdName_loop sql_connection card_values entity_id)"
  by (induction card_values) (auto simp: newline_free_resolver_def NL_def split: if_splits)

lemma resolvers_newline_free:
  assumes "newline_free_resolver sql_connection"
  shows "NL \<notin> set (resolveFairyName sql_connection a)"
    and "NL \<notin> set (resolveDialog sql_connection a)"
    and "NL \<notin> set (resolveCardDescription sql_connection a b)"
proof -
  show f: "NL \<notin> set (resolveFairyName sql_connection a)" for a
    using card_name_newline_free [OF assms]
    by (simp add: resolveFairyName_def resolveCardIdName_def)
  show "NL \<notin> set (resolveDialog sql_connection a)"
    using assms by (simp add: newline_free_resolver_def)
  have c: "NL \<notin> set (resolveCardIdName sql_connection q b)" for q
    using card_name_newline_free [OF assms] by (simp add: resolveCardIdName_def)
  have lit: "NL \<notin> set ''Item: ''" "NL \<notin> set ''Spell: ''" "NL \<notin> set ''Fairy: ''"
    "NL \<notin> set ''Blank''" "NL \<notin> set ''NULL''"
    by (simp_all add: NL_def)
  show "NL \<notin> set (resolveCardDescription sql_connection a b)"
    unfolding resolveCardDescription_def using c f lit by auto
qed

lemma with_item_Inr:
  "with_item xs i f = Inr c \<longleftrightarrow> i < length xs \<and> f (xs ! i) = Inr c"
  by (simp add: with_item_def)

lemma specials_newline_free:
  "makeDecompiledSpecialsComment arguments = Inr specials \<Longrightarrow> NL \<notin> set specials"
  using enum_newline_free(1)
  by (auto simp: makeDecompiledSpecialsComment_def with_item_Inr NL_def split: if_splits)


lemma annotated_newline_free:
  assumes "newline_free_resolver sql_connection"
  shows "\<forall>command\<in>set annotated_commands. \<forall>comment.
     makeDecompiledParameterComment command arguments sql_connection = Inr comment \<longrightarrow>
     NL \<notin> set comment"
proof -
  note r = resolvers_newline_free [OF assms]
  have specials: "\<And>comment. (case makeDecompiledSpecialsComment arguments of
                   Inl e \<Rightarrow> Inl e
                 | Inr specials \<Rightarrow> Inr ('' // condition, argument'' @ specials)) = Inr comment
       \<Longrightarrow> NL \<notin> set comment"
    using specials_newline_free [of arguments]
    by (auto simp: NL_def split: sum.splits)
  have modify: "\<And>comment.
      makeDecompiledParameterComment ''modifyWizform'' arguments sql_connection = Inr comment
      \<Longrightarrow> NL \<notin> set comment"
    using r(1) descriptions_newline_free(1)
    by (auto simp: comment_equations with_item_Inr NL_def split: if_splits option.splits)
  have look: "\<And>comment.
      makeDecompiledParameterComment ''lookAtPlayer'' arguments sql_connection = Inr comment
      \<Longrightarrow> NL \<notin> set comment"
    using descriptions_newline_free(2)
    by (auto simp: comment_equations with_item_Inr NL_def split: option.splits)
  have others: "\<forall>command\<in>set [''wizform'', ''defaultWizForm'', ''ifIsWizform'', ''say'', ''talk'',
      ''choice'', ''givePlayerCards'', ''setupGambling'', ''ifPlayerHasCards'',
      ''removePlayerCards'', ''playAnimation'', ''playPlayerAnimation'', ''startActorEffect''].
      \<forall>comment. makeDecompiledParameterComment command arguments sql_connection = Inr comment
        \<longrightarrow> NL \<notin> set comment"
    using r enum_newline_free(2) actor_effect_newline_free
    by (auto simp: comment_equations(1-10,14-16) with_item_Inr NL_def)
  show ?thesis
    unfolding annotated_commands_def
    using specials modify look others
    by (simp add: comment_equations(12))
qed

lemma comment_newline_free:
  assumes "newline_free_resolver sql_connection"
    and "makeDecompiledParameterComment command arguments sql_connection = Inr comment"
  shows "NL \<notin> set comment"
proof (cases "command \<in> set annotated_commands")
  case True
  then show ?thesis using annotated_newline_free [OF assms(1)] assms(2) by blast
next
  case False
  obtain parameters where p: "map_of script_command_parameters command = Some parameters"
    using assms(2) by (cases "map_of script_command_parameters command")
      (auto simp: makeDecompiledParameterComment_def)
  have "comment = '' // '' @ join '', '' parameters"
    using comment_plain [OF p False] assms(2) by simp
  then show ?thesis using parameters_newline_free [OF p] by (simp add: NL_def)
qed


section \<open>The loop body of the decompiler, case by case\<close>

lemma empty_line_no_opcode: "map_of SCRIPT_COMMANDS [] = None"
  by code_simp

lemma decompile_line_unknown:
  "map_of SCRIPT_COMMANDS (split_char CHR ''.'' (strip line) ! 0) = None \<Longrightarrow>
   decompile_line sql_connection line (r, i) = Inr (r @ line @ [NL], i)"
  by (simp add: decompile_line_def)

lemma decompile_line_known:
  assumes "map_of SCRIPT_COMMANDS (split_char CHR ''.'' (strip line) ! 0) = Some command"
    and "decompile_line sql_connection line (r, i) = Inr (r', i')"
  shows "\<exists>indent comment.
           r' = r @ replicate indent CHR '' '' @
                join '' '' (command # drop 1 (split_char CHR ''.'' (strip line))) @
                comment @ [NL] \<and>
           (comment = [] \<and> map_of script_command_parameters command = None \<or>
            makeDecompiledParameterComment command
              (drop 1 (split_char CHR ''.'' (strip line))) sql_connection = Inr comment)"
proof -
  let ?tokens = "split_char CHR ''.'' (strip line)"
  have more: "length ?tokens > 1 \<longleftrightarrow> drop 1 ?tokens \<noteq> []" by auto
  define indentation1 where
    "indentation1 = (if command = ''endIf'' then max (i - 4) 0 else i)"
  define indent where "indent = (if command \<noteq> ''else'' then nat indentation1 else 0)"
  define body where "body = r @ replicate indent CHR '' '' @ join '' '' (command # drop 1 ?tokens)"
  show ?thesis
  proof (cases "map_of script_command_parameters command")
    case None
    then have "r' = body @ [NL]"
      using assms more
      by (auto simp: decompile_line_def Let_def body_def indent_def indentation1_def join_Cons)
    then show ?thesis using None unfolding body_def
      by (intro exI [of _ indent] exI [of _ "[]"]) simp
  next
    case (Some parameters)
    then obtain comment where c: "makeDecompiledParameterComment command (drop 1 ?tokens)
        sql_connection = Inr comment"
      using assms by (auto simp: decompile_line_def Let_def split: sum.splits)
    then have "r' = body @ comment @ [NL]"
      using assms more Some
      by (auto simp: decompile_line_def Let_def body_def indent_def indentation1_def join_Cons)
    then show ?thesis using c unfolding body_def
      by (intro exI [of _ indent] exI [of _ comment]) simp
  qed
qed

lemma decompile_line_piece:
  assumes "decompile_line sql_connection line (r, i) = Inr (r', i')"
  shows "\<exists>piece. r' = r @ piece @ [NL] \<and>
           (newline_free_resolver sql_connection \<longrightarrow> NL \<notin> set line \<longrightarrow> NL \<notin> set piece)"
proof (cases "map_of SCRIPT_COMMANDS (split_char CHR ''.'' (strip line) ! 0)")
  case None
  then have "r' = r @ line @ [NL]" using assms decompile_line_unknown by simp
  then show ?thesis by blast
next
  case (Some command)
  let ?args = "drop 1 (split_char CHR ''.'' (strip line))"
  obtain indent comment where
    r': "r' = r @ replicate indent CHR '' '' @ join '' '' (command # ?args) @ comment @ [NL]"
    and c: "comment = [] \<and> map_of script_command_parameters command = None \<or>
            makeDecompiledParameterComment command ?args sql_connection = Inr comment"
    using decompile_line_known [OF Some assms] by blast
  let ?piece = "replicate indent CHR '' '' @ join '' '' (command # ?args) @ comment"
  have "NL \<notin> set ?piece" if n: "newline_free_resolver sql_connection" and l: "NL \<notin> set line"
  proof -
    have 1: "NL \<notin> set (replicate indent CHR '' '')" by (auto simp: NL_def)
    have 2: "NL \<notin> set command" using commands_newline_free [OF Some] .
    have 3: "NL \<notin> set (join '' '' ?args)" using tokens_newline_free [OF l] .
    have 4: "NL \<notin> set comment" using c comment_newline_free [OF n] by auto
    have 5: "NL \<notin> set '' ''" by (simp add: NL_def)
    show ?thesis using 1 2 3 4 5 by (auto simp: join_Cons)
  qed
  then show ?thesis using r' by auto
qed

lemma decompile_loop_append:
  "decompile_loop sql_connection (xs @ ys) st =
     (case decompile_loop sql_connection xs st of
        Inl e \<Rightarrow> Inl e
      | Inr st' \<Rightarrow> decompile_loop sql_connection ys st')"
  by (induction xs arbitrary: st) (auto split: sum.splits)

section \<open>One output line for each input line (C10)\<close>

lemma decompile_loop_count:
  assumes "newline_free_resolver sql_connection"
  shows "\<forall>line\<in>set lines. NL \<notin> set line \<Longrightarrow>
         decompile_loop sql_connection lines (r, i) = Inr (r', i') \<Longrightarrow>
         count_list r' NL = count_list r NL + length lines"
proof (induction lines arbitrary: r i)
  case Nil
  then show ?case by simp
next
  case (Cons line rest)
  obtain r1 i1 where s: "decompile_line sql_connection line (r, i) = Inr (r1, i1)"
    using Cons.prems(2) by (auto split: sum.splits)
  obtain piece where p: "r1 = r @ piece @ [NL]" "NL \<notin> set piece"
    using decompile_line_piece [OF s] assms Cons.prems(1) by auto
  have "count_list r' NL = count_list r1 NL + length rest"
    using Cons.IH [of r1 i1] Cons.prems s by simp
  then show ?case using p by simp
qed

lemma decompile_loop_ends:
  "lines \<noteq> [] \<Longrightarrow> decompile_loop sql_connection lines (r, i) = Inr (r', i') \<Longrightarrow>
   \<exists>body. r' = body @ [NL]"
proof (induction lines arbitrary: r i)
  case Nil
  then show ?case by simp
next
  case (Cons line rest)
  obtain r1 i1 where s: "decompile_line sql_connection line (r, i) = Inr (r1, i1)"
    using Cons.prems(2) by (auto split: sum.splits)
  obtain piece where p: "r1 = r @ piece @ [NL]"
    using decompile_line_piece [OF s] by auto
  show ?case
  proof (cases "rest = []")
    case True
    then show ?thesis using Cons.prems s p by auto
  next
    case False
    then show ?thesis using Cons.IH [OF False, of r1 i1] Cons.prems s by simp
  qed
qed

lemma newline_count_of_result:
  assumes "newline_free_resolver sql_connection"
    and "decompile sql_connection script = Inr annotated"
  shows "count_list annotated NL = count_list script NL + 1 \<and>
         (script \<noteq> [] \<and> last script = NL \<longrightarrow> (\<exists>body. annotated = body @ [NL, NL]))"
proof
  obtain i' where loop: "decompile_loop sql_connection (split_char NL script) ([], 0) =
      Inr (annotated, i')"
    using assms(2) by (auto simp: decompile_def split: sum.splits)
  have "\<forall>line\<in>set (split_char NL script). NL \<notin> set line"
    using split_char_pieces by blast
  then have "count_list annotated NL = count_list [] NL + length (split_char NL script)"
    using decompile_loop_count [OF assms(1) _ loop] by blast
  then show "count_list annotated NL = count_list script NL + 1"
    by (simp add: split_char_length)
  show "script \<noteq> [] \<and> last script = NL \<longrightarrow> (\<exists>body. annotated = body @ [NL, NL])"
  proof
    assume "script \<noteq> [] \<and> last script = NL"
    then have "script = butlast script @ [NL]" by (metis append_butlast_last_id)
    then have sp: "split_char NL script = split_char NL (butlast script) @ [[]]"
      using split_char_snoc [of NL "butlast script"] by simp
    obtain r1 i1 where
      first: "decompile_loop sql_connection (split_char NL (butlast script)) ([], 0) = Inr (r1, i1)"
      and final: "decompile_loop sql_connection [[]] (r1, i1) = Inr (annotated, i')"
      using loop unfolding sp decompile_loop_append by (auto split: sum.splits)
    obtain body where b: "r1 = body @ [NL]"
      using decompile_loop_ends [OF split_char_nonempty first] by blast
    have "strip [] = []" by (simp add: strip_def)
    then have "decompile_line sql_connection [] (r1, i1) = Inr (r1 @ [NL], i1)"
      using decompile_line_unknown [of "[]" sql_connection r1 i1] empty_line_no_opcode by simp
    then have "annotated = r1 @ [NL]" using final by simp
    then show "\<exists>body. annotated = body @ [NL, NL]" using b by simp
  qed
qed

lemma demo_connection_newline_free: "newline_free_resolver demo_connection"
  by (simp add: newline_free_resolver_def resolveLabel_def resolveDialog_def
        fetchStringOrNull_def demo_connection_def NL_def)

text \<open>
  C10, as stated, fails: the resolver of the demonstration database returns no string
  with a newline, and on the packed line \<^verbatim>\<open>J\<close>, the opcode of \<^verbatim>\<open>talk\<close> without its
  argument, \<open>decompile\<close> raises and emits no line at all.
\<close>

theorem decompile_emits_nothing_on_short_line:
  "decompile demo_connection ''J'' = Inl IndexError"
  by code_simp

text \<open>
  C10, amended. If the resolver returns no string with a newline and every line of the
  packed input carries the arguments that its annotation reads (these are exactly the
  inputs on which \<open>decompile\<close> returns), then \<open>decompile\<close> returns a text with one newline
  more than its input, that is one newline-terminated line for each input line; and for
  an input that ends with a newline the returned text ends with two newlines, an extra
  empty line.
\<close>

theorem decompile_one_line_per_input_line:
  assumes "newline_free_resolver sql_connection"
    and "\<forall>line\<in>set (split_char NL script). enough_arguments line"
  shows "\<exists>annotated. decompile sql_connection script = Inr annotated \<and>
           count_list annotated NL = count_list script NL + 1 \<and>
           (script \<noteq> [] \<and> last script = NL \<longrightarrow> (\<exists>body. annotated = body @ [NL, NL]))"
proof -
  obtain st' where "decompile_loop sql_connection (split_char NL script) ([], 0) = Inr st'"
    using decompile_loop_returns [of sql_connection "split_char NL script" "([], 0)"] assms(2)
    by blast
  then obtain annotated where d: "decompile sql_connection script = Inr annotated"
    by (cases st') (simp add: decompile_def)
  show ?thesis using d newline_count_of_result [OF assms(1) d] by blast
qed

text \<open>
  An instance: a line with a lookup, a command with fewer arguments than registered
  parameters, a line that is no command, a final newline.
\<close>

theorem decompile_one_line_per_input_line_witness:
  "enough_arguments ''!.U1.0'' \<and> enough_arguments ''K'' \<and> enough_arguments ''x'' \<and>
   enough_arguments [] \<and>
   split_char NL (''!.U1.0'' @ [NL] @ ''K'' @ [NL] @ ''x'' @ [NL]) =
     [''!.U1.0'', ''K'', ''x'', []] \<and>
   decompile demo_connection (''!.U1.0'' @ [NL] @ ''K'' @ [NL] @ ''x'' @ [NL]) =
     Inr (''say U1 0 // dialogUid, silent; Hello'' @ [NL] @ ''goto // labelId'' @ [NL] @
          ''x'' @ [NL, NL]) \<and>
   count_list (''say U1 0 // dialogUid, silent; Hello'' @ [NL] @ ''goto // labelId'' @ [NL] @
               ''x'' @ [NL, NL]) NL =
     count_list (''!.U1.0'' @ [NL] @ ''K'' @ [NL] @ ''x'' @ [NL]) NL + 1 \<and>
   (\<exists>body. ''say U1 0 // dialogUid, silent; Hello'' @ [NL] @ ''goto // labelId'' @ [NL] @
            ''x'' @ [NL, NL] = body @ [NL, NL])"
proof -
  let ?script = "''!.U1.0'' @ [NL] @ ''K'' @ [NL] @ ''x'' @ [NL]"
  let ?text = "''say U1 0 // dialogUid, silent; Hello'' @ [NL] @ ''goto // labelId'' @ [NL] @
          ''x'' @ [NL, NL]"
  have e: "enough_arguments ''!.U1.0'' \<and> enough_arguments ''K'' \<and> enough_arguments ''x'' \<and>
      enough_arguments []"
    by code_simp
  have s: "split_char NL ?script = [''!.U1.0'', ''K'', ''x'', []]"
    by code_simp
  have d: "decompile demo_connection ?script = Inr ?text"
    by code_simp
  have l: "?script \<noteq> [] \<and> last ?script = NL"
    by simp
  have h: "\<forall>line\<in>set (split_char NL ?script). enough_arguments line"
    unfolding s using e by simp
  obtain annotated where
    r: "decompile demo_connection ?script = Inr annotated"
       "count_list annotated NL = count_list ?script NL + 1"
       "?script \<noteq> [] \<and> last ?script = NL \<longrightarrow> (\<exists>body. annotated = body @ [NL, NL])"
    using decompile_one_line_per_input_line [OF demo_connection_newline_free h] by blast
  have a: "annotated = ?text" using r(1) d by simp
  have c: "count_list ?text NL = count_list ?script NL + 1"
    using r(2) unfolding a .
  have b: "\<exists>body. ?text = body @ [NL, NL]"
    using r(3) l unfolding a by (rule mp)
  show ?thesis using e s d c b by blast
qed

section \<open>Compiling and decompiling again (C2)\<close>













text \<open>
  The opcode of \<^verbatim>\<open>catchWizform\<close> is the dot itself. The decompiler splits a packed line
  at dots before it looks for the opcode, so it never finds this one and echoes the line.
\<close>

lemma catchWizform_not_recognised:
  "compile ''catchWizform'' = Inr (''.'' @ [NL]) \<and>
   decompile demo_connection (''.'' @ [NL]) = Inr (''.'' @ [NL, NL])"
  by code_simp




end
